theory Spec2Isabelle
  imports Complex_Main "HOL-Library.Sublist"
begin

text \<open>
  A model of the trading server of \<open>index.js\<close>, in its version with strategy keys: the
  classes \<open>TradeDatabase\<close> (positions and balances kept in Redis under
  \<open>coin:category:subcategory\<close>), \<open>OKXClient\<close>, \<open>TradingViewParser\<close> and
  \<open>SignalManager\<close>, whose \<open>processSignal\<close> turns one signal into at most one order.
  Every function takes the state it reads and returns the state it leaves; a function that
  catches its errors returns the value of its \<open>catch\<close> branch.
\<close>

section \<open>JavaScript values used by the trading server\<close>

text \<open>
  A JavaScript number is either \<open>NaN\<close> or a finite value. Finite doubles are idealised as
  rationals: the program only multiplies, divides and compares them, and no statement
  below depends on rounding. Infinities are left out; the only divisions of the source are
  by a price already tested to be \<open>> 0\<close> and by the literal 100.
\<close>

datatype jsnum = NaN | Num rat

fun num_truthy :: "jsnum \<Rightarrow> bool" where
  "num_truthy NaN = False"
| "num_truthy (Num r) = (r \<noteq> 0)"

fun jmul :: "jsnum \<Rightarrow> jsnum \<Rightarrow> jsnum" where
  "jmul (Num a) (Num b) = Num (a * b)"
| "jmul _ _ = NaN"

fun jadd :: "jsnum \<Rightarrow> jsnum \<Rightarrow> jsnum" where
  "jadd (Num a) (Num b) = Num (a + b)"
| "jadd _ _ = NaN"

fun jsub :: "jsnum \<Rightarrow> jsnum \<Rightarrow> jsnum" where
  "jsub (Num a) (Num b) = Num (a - b)"
| "jsub _ _ = NaN"

fun jdiv :: "jsnum \<Rightarrow> jsnum \<Rightarrow> jsnum" where
  "jdiv (Num a) (Num b) = (if b = 0 then NaN else Num (a / b))"
| "jdiv _ _ = NaN"

text \<open>\<open>a < b\<close> and \<open>a > b\<close> of JavaScript: false as soon as one side is \<open>NaN\<close>.\<close>

fun jless :: "jsnum \<Rightarrow> jsnum \<Rightarrow> bool" where
  "jless (Num a) (Num b) = (a < b)"
| "jless _ _ = False"

definition jgreater :: "jsnum \<Rightarrow> jsnum \<Rightarrow> bool" where
  "jgreater a b = jless b a"

text \<open>
  \<open>n.toString()\<close> is kept as the number it was written from: \<open>parseFloat\<close> reads the
  decimal text of a double back to the same double (and \<open>"NaN"\<close> back to \<open>NaN\<close>), and such a
  text is never the empty string, so it is truthy.
\<close>

datatype numtext = ToString jsnum

fun parseFloat :: "numtext \<Rightarrow> jsnum" where
  "parseFloat (ToString n) = n"

text \<open>A property of an object: missing (\<open>undefined\<close>), \<open>null\<close>, or a value.\<close>

datatype 'a js = Undefined | Null | Val 'a

fun str_truthy :: "string js \<Rightarrow> bool" where
  "str_truthy (Val s) = (s \<noteq> [])"
| "str_truthy _ = False"

fun numjs_truthy :: "jsnum js \<Rightarrow> bool" where
  "numjs_truthy (Val n) = num_truthy n"
| "numjs_truthy _ = False"

text \<open>How a template literal \<open>`${v}`\<close> renders a string-valued property.\<close>

fun render :: "string js \<Rightarrow> string" where
  "render Undefined = ''undefined''"
| "render Null = ''null''"
| "render (Val s) = s"

subsection \<open>String methods\<close>

text \<open>
  A character of a text is a code unit from 0 to 255. \<open>toLowerCase\<close> maps the capital
  letters of that range, \<open>A\<close> to \<open>Z\<close> and the codes 192 to 222 without the multiplication
  sign 215, to the letter 32 places further on. \<open>toUpperCase\<close> maps the small letters \<open>a\<close>
  to \<open>z\<close> and the codes 224 to 254 without the division sign 247 to the letter 32 places
  before, and the sharp s (223) to \<open>SS\<close>; the micro sign (181) and the y with diaeresis
  (255), whose capitals lie beyond the code 255, are left as they are, like every other
  character.
\<close>

definition lower_char :: "char \<Rightarrow> char" where
  "lower_char c =
     (let n = (of_char c :: nat)
      in if (65 \<le> n \<and> n \<le> 90) \<or> (192 \<le> n \<and> n \<le> 222 \<and> n \<noteq> 215) then char_of (n + 32) else c)"

definition upper_char :: "char \<Rightarrow> char" where
  "upper_char c =
     (let n = (of_char c :: nat)
      in if (97 \<le> n \<and> n \<le> 122) \<or> (224 \<le> n \<and> n \<le> 254 \<and> n \<noteq> 247) then char_of (n - 32) else c)"

definition toLowerCase :: "string \<Rightarrow> string" where
  "toLowerCase s = map lower_char s"

definition toUpperCase :: "string \<Rightarrow> string" where
  "toUpperCase s = concat (map (\<lambda>c. if c = CHR 0xDF then ''SS'' else [upper_char c]) s)"

text \<open>
  \<open>trim\<close> removes the white space and the line terminators at both ends: in the range of
  the codes, the tabulation, the line feed, the vertical tabulation, the form feed, the
  carriage return, the space and the no-break space (160).
\<close>

definition is_space :: "char \<Rightarrow> bool" where
  "is_space c = (c \<in> set [CHR '' '', CHR 0x09, CHR 0x0A, CHR 0x0B, CHR 0x0C, CHR 0x0D, CHR 0xA0])"

definition trim :: "string \<Rightarrow> string" where
  "trim s = rev (dropWhile is_space (rev (dropWhile is_space s)))"

text \<open>\<open>s.split(c)\<close> for a one-character separator: never the empty list.\<close>

fun split :: "char \<Rightarrow> string \<Rightarrow> string list" where
  "split c [] = [[]]"
| "split c (x # xs) =
     (if x = c then [] # split c xs
      else (case split c xs of [] \<Rightarrow> [[x]] | p # ps \<Rightarrow> (x # p) # ps))"

fun join :: "string \<Rightarrow> string list \<Rightarrow> string" where
  "join sep [] = []"
| "join sep [p] = p"
| "join sep (p # q # ps) = p @ sep @ join sep (q # ps)"

text \<open>\<open>s.replace(pat, rep)\<close> with a string pattern: the first occurrence only.\<close>

fun replace :: "string \<Rightarrow> string \<Rightarrow> string \<Rightarrow> string" where
  "replace pat rep [] = (if pat = [] then rep else [])"
| "replace pat rep (c # cs) =
     (if prefix pat (c # cs) then rep @ drop (length pat) (c # cs)
      else c # replace pat rep cs)"

text \<open>\<open>s.replace(/[;]/g, '-')\<close>: every semicolon.\<close>

definition replace_semicolons :: "string \<Rightarrow> string" where
  "replace_semicolons s = map (\<lambda>c. if c = CHR '';'' then CHR ''-'' else c) s"

section \<open>Signals\<close>

text \<open>
  The object handed to \<open>processSignal\<close>, and the object \<open>parseMessage\<close> builds. Text-valued
  properties are strings, numeric ones are numbers, as \<open>parseMessage\<close> produces them; a
  property that was never assigned is \<open>Undefined\<close>.
\<close>

record signal =
  action :: "string js"
  symbol :: "string js"
  coin :: "string js"
  category :: "string js"
  subcategory :: "string js"
  quantity :: "jsnum js"
  amount :: "jsnum js"
  recurringMode :: "string js"
  orderType :: "string js"
  price :: "jsnum js"
  initialAmount :: "jsnum js"
  initialQuantity :: "jsnum js"

definition empty_signal :: signal where
  "empty_signal = \<lparr> action = Undefined, symbol = Undefined, coin = Undefined,
     category = Undefined, subcategory = Undefined, quantity = Undefined, amount = Undefined,
     recurringMode = Undefined, orderType = Undefined, price = Undefined,
     initialAmount = Undefined, initialQuantity = Undefined \<rparr>"

section \<open>TradingViewParser\<close>

text \<open>
  \<open>parseFloat(value) || null\<close> on the text of an alert line. The parser of the language is
  a parameter \<open>pf\<close>: it gives \<open>NaN\<close> for a text that does not start with a number.
\<close>

definition number_or_null :: "jsnum \<Rightarrow> jsnum js" where
  "number_or_null n = (if num_truthy n then Val n else Null)"

text \<open>The body of the loop of \<open>parseMessage\<close>: one trimmed, non-empty line.\<close>

definition parseLine :: "(string \<Rightarrow> jsnum) \<Rightarrow> signal \<Rightarrow> string \<Rightarrow> signal" where
  "parseLine pf parsed line =
     (if CHR '':'' \<in> set line then
        (case split CHR '':'' line of
           [] \<Rightarrow> parsed
         | key # valueParts \<Rightarrow>
             let v = trim (join '':'' valueParts);
                 k = trim (toLowerCase key)
             in if k = ''coin'' then
                  (let coinPair0 = toUpperCase (replace_semicolons v);
                       coinPair = (if CHR ''-'' \<notin> set coinPair0 then coinPair0 @ ''-USDT''
                                   else coinPair0)
                   in parsed\<lparr> symbol := Val coinPair,
                               coin := Val (case split CHR ''-'' coinPair of
                                              [] \<Rightarrow> [] | base # _ \<Rightarrow> base) \<rparr>)
                else if k = ''cat'' then parsed\<lparr> category := Val v \<rparr>
                else if k = ''scat'' then parsed\<lparr> subcategory := Val v \<rparr>
                else if k = ''action'' then parsed\<lparr> action := Val (toLowerCase v) \<rparr>
                else if k = ''quantity'' then parsed\<lparr> quantity := number_or_null (pf v) \<rparr>
                else if k = ''amount'' then parsed\<lparr> amount := number_or_null (pf v) \<rparr>
                else if k = ''recurringmode'' then parsed\<lparr> recurringMode := Val (toLowerCase v) \<rparr>
                else if k = ''ordertype'' then parsed\<lparr> orderType := Val (toLowerCase v) \<rparr>
                else if k = ''price'' then parsed\<lparr> price := number_or_null (pf v) \<rparr>
                else if k = ''initialamount'' then parsed\<lparr> initialAmount := number_or_null (pf v) \<rparr>
                else if k = ''initialquantity'' then
                  parsed\<lparr> initialQuantity := number_or_null (pf v) \<rparr>
                else parsed)
      else parsed)"

definition message_lines :: "string \<Rightarrow> string list" where
  "message_lines message = filter (\<lambda>l. l \<noteq> []) (map trim (split CHR 0x0A message))"

text \<open>\<open>parseMessage\<close>: \<open>Inl\<close> is the message of the error it throws.\<close>

definition parseMessage :: "(string \<Rightarrow> jsnum) \<Rightarrow> string \<Rightarrow> string + signal" where
  "parseMessage pf message =
     (let parsed = foldl (parseLine pf) empty_signal (message_lines message)
      in if \<not> str_truthy (action parsed) \<or> action parsed \<notin> {Val ''buy'', Val ''sell''}
         then Inl ''Invalid or missing action''
         else if \<not> str_truthy (symbol parsed) then Inl ''Missing coin pair''
         else Inr parsed)"

section \<open>Configuration\<close>

definition BUY_AMOUNT_USDT :: jsnum where
  "BUY_AMOUNT_USDT = Num 1000"

definition STOP_LOSS_PERCENTAGE :: jsnum where
  "STOP_LOSS_PERCENTAGE = Num 2"

definition TAKE_PROFIT_PERCENTAGE :: jsnum where
  "TAKE_PROFIT_PERCENTAGE = Num 5"

definition COOLDOWN_SECONDS :: int where
  "COOLDOWN_SECONDS = 60"

definition MAX_DAILY_TRADES :: nat where
  "MAX_DAILY_TRADES = 5000"

section \<open>OKXClient\<close>

subsection \<open>Signing a request\<close>

text \<open>
  A flat object literal, as the client passes for the query parameters and for the body. A
  value is a string, the text of a number, or \<open>n.toFixed(4)\<close>.
\<close>

datatype field = Str string | NumText numtext | Fixed4 jsnum

type_synonym obj = "(string \<times> field) list"

record client =
  apiKey :: string
  secretKey :: string
  passphrase :: string
  baseURL :: string

text \<open>
  What the platform provides: \<open>crypto.createHmac('sha256', key).update(m).digest('base64')\<close>,
  \<open>new URLSearchParams(params).toString()\<close>, \<open>JSON.stringify(body)\<close> and
  \<open>new Date().toISOString()\<close> at the time of the call.
\<close>

record platform =
  hmac_sha256_base64 :: "string \<Rightarrow> string \<Rightarrow> string"
  urlSearchParams :: "obj \<Rightarrow> string"
  json_stringify :: "obj \<Rightarrow> string"
  toISOString :: string

definition sign :: "platform \<Rightarrow> client \<Rightarrow> string \<Rightarrow> string \<Rightarrow> string \<Rightarrow> string \<Rightarrow> string" where
  "sign pl c timestamp method path body =
     (let message = timestamp @ method @ path @ body
      in hmac_sha256_base64 pl (secretKey c) message)"

record axiosConfig =
  cfg_method :: string
  cfg_url :: string
  cfg_headers :: "(string \<times> string) list"
  cfg_data :: "string option"

text \<open>
  The part of \<open>request\<close> before the call of \<open>axios\<close>: the configuration it builds, together
  with the path it signed.
\<close>

definition request_config ::
  "platform \<Rightarrow> client \<Rightarrow> string \<Rightarrow> string \<Rightarrow> obj option \<Rightarrow> obj option \<Rightarrow> axiosConfig \<times> string" where
  "request_config pl c method path params body =
     (let timestamp = toISOString pl;
          url = baseURL c @ path;
          (url, path) =
             (case params of
                Some ps \<Rightarrow>
                  if method = ''GET'' then
                    (let queryString = urlSearchParams pl ps
                     in if queryString \<noteq> []
                        then (url @ ''?'' @ queryString, path @ ''?'' @ queryString)
                        else (url, path))
                  else (url, path)
              | None \<Rightarrow> (url, path));
          bodyStr = (case body of Some b \<Rightarrow> json_stringify pl b | None \<Rightarrow> []);
          signature = sign pl c timestamp method path bodyStr;
          headers = [(''OK-ACCESS-KEY'', apiKey c),
                     (''OK-ACCESS-SIGN'', signature),
                     (''OK-ACCESS-TIMESTAMP'', timestamp),
                     (''OK-ACCESS-PASSPHRASE'', passphrase c),
                     (''Content-Type'', ''application/json'')]
      in (\<lparr> cfg_method = method, cfg_url = url, cfg_headers = headers,
             cfg_data = (case body of Some b \<Rightarrow> Some bodyStr | None \<Rightarrow> None) \<rparr>, path))"

subsection \<open>The exchange\<close>

text \<open>
  The arguments of one call of \<open>request\<close>, and what comes back: \<open>axios\<close> throws, or the
  response body \<open>{code, data}\<close> is returned. An element of \<open>data\<close> is an instrument, the
  acknowledgement of an order with its \<open>ordId\<close>, a ticker (\<open>last\<close>, \<open>bidPx\<close>, \<open>askPx\<close>,
  \<open>vol24h\<close>) or an account with its \<open>details\<close> (\<open>ccy\<close>, \<open>availBal\<close>, \<open>bal\<close>); the numbers
  in them stand for what the language's \<open>parseFloat\<close> reads from the texts received.
\<close>

datatype req = Req (verb: string) (path: string) (params: "obj option") (body: "obj option")

datatype item =
    Instrument string
  | OrderAck string
  | TickerData jsnum jsnum jsnum jsnum
  | AccountData "(string \<times> jsnum \<times> jsnum) list"

datatype reply = Throws | Reply string "item list option"

text \<open>
  The exchange answers each request, and its answer depends on the request alone; \<open>sent\<close>
  is the list of the requests made so far, in order. A request that throws is recorded
  too: it was attempted.
\<close>

record okx =
  answer :: "req \<Rightarrow> reply"
  sent :: "req list"

definition request :: "okx \<Rightarrow> string \<Rightarrow> string \<Rightarrow> obj option \<Rightarrow> obj option \<Rightarrow> reply \<times> okx" where
  "request ex m p ps b = (answer ex (Req m p ps b), ex\<lparr> sent := sent ex @ [Req m p ps b] \<rparr>)"

record balance =
  available :: jsnum
  total :: jsnum
  currency :: string

fun details_of :: "item \<Rightarrow> (string \<times> jsnum \<times> jsnum) list" where
  "details_of (AccountData ds) = ds"
| "details_of _ = []"

text \<open>What \<open>getBalance\<close> makes of the response (\<open>null\<close> also when \<open>request\<close> throws).\<close>

definition balance_result :: "string \<Rightarrow> reply \<Rightarrow> balance option" where
  "balance_result ccy r =
     (case r of
        Throws \<Rightarrow> None
      | Reply code (Some (acct # _)) \<Rightarrow>
          (if code = ''0'' then
             (case find (\<lambda>d. fst d = ccy) (details_of acct) of
                Some (_, availBal, bal) \<Rightarrow>
                  Some \<lparr> available = availBal, total = bal, currency = ccy \<rparr>
              | None \<Rightarrow> None)
           else None)
      | Reply code _ \<Rightarrow> None)"

definition getBalance :: "okx \<Rightarrow> string \<Rightarrow> balance option \<times> okx" where
  "getBalance ex ccy =
     (let (result, ex') = request ex ''GET'' ''/api/v5/account/balance'' None None
      in (balance_result ccy result, ex'))"

text \<open>
  \<open>placeMarketOrder\<close> and \<open>placeLimitOrder\<close> return \<open>result.data[0]\<close> when the code is
  \<open>'0'\<close>: with no \<open>data\<close> that read throws and the \<open>catch\<close> returns \<open>null\<close>; with an empty
  \<open>data\<close> it is \<open>undefined\<close>. Both are falsy and both are \<open>None\<close> here.
\<close>

definition order_result :: "reply \<Rightarrow> item option" where
  "order_result r =
     (case r of
        Throws \<Rightarrow> None
      | Reply code d \<Rightarrow>
          (if code = ''0'' then (case d of Some (x # _) \<Rightarrow> Some x | _ \<Rightarrow> None) else None))"

definition placeMarketOrder :: "okx \<Rightarrow> string \<Rightarrow> string \<Rightarrow> numtext \<Rightarrow> item option \<times> okx" where
  "placeMarketOrder ex symb side amt =
     (let orderData = [(''instId'', Str symb), (''tdMode'', Str ''cash''), (''side'', Str side),
                       (''ordType'', Str ''market''), (''sz'', NumText amt)];
          (result, ex') = request ex ''POST'' ''/api/v5/trade/order'' None (Some orderData)
      in (order_result result, ex'))"

definition placeLimitOrder ::
  "okx \<Rightarrow> string \<Rightarrow> string \<Rightarrow> numtext \<Rightarrow> jsnum \<Rightarrow> item option \<times> okx" where
  "placeLimitOrder ex symb side amt px =
     (let orderData = [(''instId'', Str symb), (''tdMode'', Str ''cash''), (''side'', Str side),
                       (''ordType'', Str ''limit''), (''sz'', NumText amt),
                       (''px'', NumText (ToString px))];
          (result, ex') = request ex ''POST'' ''/api/v5/trade/order'' None (Some orderData)
      in (order_result result, ex'))"

record ticker =
  last :: jsnum
  bid :: jsnum
  ask :: jsnum
  volume :: jsnum

text \<open>The fields of an element that is not a ticker are \<open>undefined\<close>: they parse to \<open>NaN\<close>.\<close>

fun ticker_of :: "item \<Rightarrow> ticker" where
  "ticker_of (TickerData l b a v) = \<lparr> last = l, bid = b, ask = a, volume = v \<rparr>"
| "ticker_of _ = \<lparr> last = NaN, bid = NaN, ask = NaN, volume = NaN \<rparr>"

definition ticker_result :: "reply \<Rightarrow> ticker option" where
  "ticker_result r =
     (case r of
        Throws \<Rightarrow> None
      | Reply code (Some (x # _)) \<Rightarrow> (if code = ''0'' then Some (ticker_of x) else None)
      | Reply code _ \<Rightarrow> None)"

definition getTicker :: "okx \<Rightarrow> string \<Rightarrow> ticker option \<times> okx" where
  "getTicker ex symb =
     (let (result, ex') = request ex ''GET'' ''/api/v5/market/ticker''
                            (Some [(''instId'', Str symb)]) None
      in (ticker_result result, ex'))"

definition placeOrderWithSLTP ::
  "okx \<Rightarrow> string \<Rightarrow> string \<Rightarrow> numtext \<Rightarrow> jsnum \<Rightarrow> jsnum \<Rightarrow> item option \<times> okx" where
  "placeOrderWithSLTP ex symb side amt stopLoss takeProfit =
     (case placeMarketOrder ex symb side amt of
        (None, ex1) \<Rightarrow> (None, ex1)
      | (Some mainOrder, ex1) \<Rightarrow>
          (case getTicker ex1 symb of
             (None, ex2) \<Rightarrow> (Some mainOrder, ex2)
           | (Some t, ex2) \<Rightarrow>
               let currentPrice = last t;
                   slPrice = (if side = ''buy''
                              then jmul currentPrice (jsub (Num 1) (jdiv stopLoss (Num 100)))
                              else jmul currentPrice (jadd (Num 1) (jdiv stopLoss (Num 100))));
                   slOrder = [(''instId'', Str symb), (''tdMode'', Str ''cash''),
                              (''side'', Str (if side = ''buy'' then ''sell'' else ''buy'')),
                              (''ordType'', Str ''conditional''), (''sz'', NumText amt),
                              (''slTriggerPx'', Fixed4 slPrice), (''slOrdPx'', Str ''-1'')]
               in (case request ex2 ''POST'' ''/api/v5/trade/order-algo'' None (Some slOrder) of
                     (Throws, ex3) \<Rightarrow> (None, ex3)
                   | (Reply _ _, ex3) \<Rightarrow> (Some mainOrder, ex3))))"

text \<open>\<open>validateSymbol\<close>: the symbol as given, then the alternative formats in turn.\<close>

definition instrument_found :: "string \<Rightarrow> item list option \<Rightarrow> bool" where
  "instrument_found code d = (code = ''0'' \<and> (case d of Some xs \<Rightarrow> xs \<noteq> [] | None \<Rightarrow> False))"

definition instruments_params :: "string \<Rightarrow> obj" where
  "instruments_params instId = [(''instType'', Str ''SPOT''), (''instId'', Str instId)]"

fun try_alternatives :: "okx \<Rightarrow> string \<Rightarrow> string list \<Rightarrow> bool \<times> okx" where
  "try_alternatives ex symb [] = (False, ex)"
| "try_alternatives ex symb (alt # alts) =
     (if alt \<noteq> symb then
        (case request ex ''GET'' ''/api/v5/public/instruments'' (Some (instruments_params alt)) None of
           (Throws, ex') \<Rightarrow> (False, ex')
         | (Reply code d, ex') \<Rightarrow>
             if instrument_found code d then (True, ex') else try_alternatives ex' symb alts)
      else try_alternatives ex symb alts)"

definition alternatives :: "string \<Rightarrow> string list" where
  "alternatives symb = [replace ''-'' [] symb, replace ''-'' ''_'' symb, replace ''-USDT'' ''-USD'' symb]"

definition validateSymbol :: "okx \<Rightarrow> string \<Rightarrow> bool \<times> okx" where
  "validateSymbol ex symb =
     (case request ex ''GET'' ''/api/v5/public/instruments'' (Some (instruments_params symb)) None of
        (Throws, ex') \<Rightarrow> (False, ex')
      | (Reply code d, ex') \<Rightarrow>
          if instrument_found code d then (True, ex') else try_alternatives ex' symb (alternatives symb))"

section \<open>TradeDatabase\<close>

text \<open>
  The hash stored under \<open>buy:<strategy>\<close> and the string stored under
  \<open>balance:<strategy>\<close>. A missing key reads as the empty object, respectively as \<open>null\<close>.
  Each command of the client either is carried out or throws: \<open>outages\<close> says, command by
  command, which of the coming ones throw (none once the list is used up).
\<close>

record buy_hash =
  h_quantity :: numtext
  h_price :: numtext
  h_usdtSpent :: numtext
  h_orderId :: "string js"
  h_timestamp :: string
  h_status :: string
  h_coin :: string
  h_category :: "string js"
  h_subcategory :: "string js"

record redis =
  hashes :: "string \<rightharpoonup> buy_hash"
  strings :: "string \<rightharpoonup> numtext"
  outages :: "bool list"

definition command :: "redis \<Rightarrow> bool \<times> redis" where
  "command db = (case outages db of [] \<Rightarrow> (False, db) | t # ts \<Rightarrow> (t, db\<lparr> outages := ts \<rparr>))"

definition getStrategyKey :: "string \<Rightarrow> string js \<Rightarrow> string js \<Rightarrow> string" where
  "getStrategyKey c cat sub = c @ '':'' @ render cat @ '':'' @ render sub"

definition storeBuyOrder ::
  "redis \<Rightarrow> string \<Rightarrow> string js \<Rightarrow> string js \<Rightarrow> jsnum \<Rightarrow> jsnum \<Rightarrow> jsnum \<Rightarrow> string js \<Rightarrow> string
     \<Rightarrow> bool \<times> redis" where
  "storeBuyOrder db c cat sub qty px usdtSpent orderId timestamp =
     (let strategyRef = getStrategyKey c cat sub;
          key = ''buy:'' @ strategyRef;
          orderData = \<lparr> h_quantity = ToString qty, h_price = ToString px,
                        h_usdtSpent = ToString usdtSpent, h_orderId = orderId,
                        h_timestamp = timestamp, h_status = ''active'', h_coin = c,
                        h_category = cat, h_subcategory = sub \<rparr>;
          (thrown, db') = command db
      in if thrown then (False, db')
         else (True, db'\<lparr> hashes := (hashes db')(key \<mapsto> orderData) \<rparr>))"

record position =
  p_quantity :: jsnum
  p_price :: jsnum
  p_usdtSpent :: jsnum
  p_orderId :: "string js"
  p_timestamp :: string
  p_status :: string
  p_coin :: string
  p_category :: "string js"
  p_subcategory :: "string js"
  p_strategyRef :: string

definition read_position :: "string \<Rightarrow> buy_hash \<Rightarrow> position" where
  "read_position strategyRef d =
     \<lparr> p_quantity = parseFloat (h_quantity d), p_price = parseFloat (h_price d),
       p_usdtSpent = parseFloat (h_usdtSpent d), p_orderId = h_orderId d,
       p_timestamp = h_timestamp d, p_status = h_status d, p_coin = h_coin d,
       p_category = h_category d, p_subcategory = h_subcategory d,
       p_strategyRef = strategyRef \<rparr>"

definition getBuyPosition ::
  "redis \<Rightarrow> string \<Rightarrow> string js \<Rightarrow> string js \<Rightarrow> position option \<times> redis" where
  "getBuyPosition db c cat sub =
     (let strategyRef = getStrategyKey c cat sub;
          key = ''buy:'' @ strategyRef;
          (thrown, db') = command db
      in if thrown then (None, db')
         else (case hashes db' key of
                 None \<Rightarrow> (None, db')
               | Some d \<Rightarrow> (Some (read_position strategyRef d), db')))"

definition clearBuyPosition :: "redis \<Rightarrow> string \<Rightarrow> string js \<Rightarrow> string js \<Rightarrow> bool \<times> redis" where
  "clearBuyPosition db c cat sub =
     (let strategyRef = getStrategyKey c cat sub;
          key = ''buy:'' @ strategyRef;
          (thrown, db') = command db
      in if thrown then (False, db')
         else (True, db'\<lparr> hashes := (hashes db')(key := None) \<rparr>))"

definition canBuy :: "redis \<Rightarrow> string \<Rightarrow> string js \<Rightarrow> string js \<Rightarrow> bool \<times> redis" where
  "canBuy db c cat sub =
     (let (pos, db') = getBuyPosition db c cat sub
      in (case pos of None \<Rightarrow> True | Some p \<Rightarrow> p_status p \<noteq> ''active'', db'))"

definition canSell :: "redis \<Rightarrow> string \<Rightarrow> string js \<Rightarrow> string js \<Rightarrow> bool \<times> redis" where
  "canSell db c cat sub =
     (let (pos, db') = getBuyPosition db c cat sub
      in (case pos of
            None \<Rightarrow> False
          | Some p \<Rightarrow> p_status p = ''active'' \<and> jgreater (p_quantity p) (Num 0), db'))"

definition storeTradingBalance ::
  "redis \<Rightarrow> string \<Rightarrow> string js \<Rightarrow> string js \<Rightarrow> jsnum \<Rightarrow> bool \<times> redis" where
  "storeTradingBalance db c cat sub usdtAmount =
     (let strategyRef = getStrategyKey c cat sub;
          key = ''balance:'' @ strategyRef;
          (thrown, db') = command db
      in if thrown then (False, db')
         else (True, db'\<lparr> strings := (strings db')(key \<mapsto> ToString usdtAmount) \<rparr>))"

definition getTradingBalance :: "redis \<Rightarrow> string \<Rightarrow> string js \<Rightarrow> string js \<Rightarrow> jsnum \<times> redis" where
  "getTradingBalance db c cat sub =
     (let strategyRef = getStrategyKey c cat sub;
          key = ''balance:'' @ strategyRef;
          (thrown, db') = command db
      in if thrown then (BUY_AMOUNT_USDT, db')
         else (case strings db' key of
                 None \<Rightarrow> (BUY_AMOUNT_USDT, db')
               | Some b \<Rightarrow> (parseFloat b, db')))"

definition isFirstTrade :: "redis \<Rightarrow> string \<Rightarrow> string js \<Rightarrow> string js \<Rightarrow> bool \<times> redis" where
  "isFirstTrade db c cat sub =
     (let strategyRef = getStrategyKey c cat sub;
          balanceKey = ''balance:'' @ strategyRef;
          positionKey = ''buy:'' @ strategyRef;
          (thrown1, db1) = command db
      in if thrown1 then (True, db1)
         else (let bal = strings db1 balanceKey;
                   (thrown2, db2) = command db1
               in if thrown2 then (True, db2)
                  else (bal = None \<and> hashes db2 positionKey = None, db2)))"

section \<open>SignalManager\<close>

record manager =
  cooldowns :: "string \<rightharpoonup> int"
  dailyTrades :: "string \<rightharpoonup> nat"
  okxClient :: okx
  database :: redis

text \<open>
  The readings of the clock during one run of \<open>processSignal\<close>: \<open>Date.now()\<close>,
  \<open>new Date().toDateString()\<close> and \<open>new Date().toISOString()\<close>.
\<close>

record clock =
  date_now :: int
  date_toDateString :: string
  date_toISOString :: string

definition cooldown_key :: "string \<Rightarrow> string \<Rightarrow> string js \<Rightarrow> string" where
  "cooldown_key symb act sub =
     (if str_truthy sub then symb @ ''-'' @ act @ ''-'' @ render sub else symb @ ''-'' @ act)"

definition isInCooldown :: "manager \<Rightarrow> clock \<Rightarrow> string \<Rightarrow> string \<Rightarrow> string js \<Rightarrow> bool" where
  "isInCooldown m clk symb act sub =
     (case cooldowns m (cooldown_key symb act sub) of
        None \<Rightarrow> False
      | Some lastSignal \<Rightarrow>
          if lastSignal = 0 then False
          else date_now clk - lastSignal < COOLDOWN_SECONDS * 1000)"

definition setCooldown :: "manager \<Rightarrow> clock \<Rightarrow> string \<Rightarrow> string \<Rightarrow> string js \<Rightarrow> manager" where
  "setCooldown m clk symb act sub =
     m\<lparr> cooldowns := (cooldowns m)(cooldown_key symb act sub \<mapsto> date_now clk) \<rparr>"

definition checkDailyLimit :: "manager \<Rightarrow> clock \<Rightarrow> bool \<times> manager" where
  "checkDailyLimit m clk =
     (let today = date_toDateString clk;
          trades = (case dailyTrades m today of None \<Rightarrow> 0 | Some n \<Rightarrow> n)
      in if trades \<ge> MAX_DAILY_TRADES then (False, m)
         else (True, m\<lparr> dailyTrades := (dailyTrades m)(today \<mapsto> trades + 1) \<rparr>))"

subsection \<open>Normalising the signal\<close>

text \<open>
  The first loop of \<open>processSignal\<close>: a string is lower-cased, and \<open>"N/A"\<close> in any case
  becomes \<open>null\<close>; a value that is not a string is kept.
\<close>

definition normalize_value :: "string js \<Rightarrow> string js" where
  "normalize_value v =
     (case v of
        Val s \<Rightarrow> if toLowerCase s = ''n/a'' then Null else Val (toLowerCase s)
      | _ \<Rightarrow> v)"

definition normalizedSignal :: "signal \<Rightarrow> signal" where
  "normalizedSignal s =
     s\<lparr> action := normalize_value (action s), symbol := normalize_value (symbol s),
        coin := normalize_value (coin s), category := normalize_value (category s),
        subcategory := normalize_value (subcategory s),
        recurringMode := normalize_value (recurringMode s),
        orderType := normalize_value (orderType s) \<rparr>"

text \<open>
  The local variables after the defaults have been applied: \<open>x || null\<close> on the three
  numbers, the order type taken from the presence of a price, the recurring mode \<open>'am'\<close>
  unless it is \<open>'am'\<close> or \<open>'qu'\<close>, coin and symbol upper-cased again.
\<close>

definition or_null :: "jsnum js \<Rightarrow> jsnum js" where
  "or_null v = (if numjs_truthy v then v else Null)"

fun upper_js :: "string js \<Rightarrow> string js" where
  "upper_js (Val s) = Val (toUpperCase s)"
| "upper_js v = v"

definition with_defaults :: "signal \<Rightarrow> signal" where
  "with_defaults n =
     (let price' = or_null (price n);
          initialAmount' = or_null (initialAmount n);
          initialQuantity' = or_null (initialQuantity n);
          orderType' = (if \<not> str_truthy (orderType n)
                        then (if numjs_truthy price' then Val ''limit'' else Val ''market'')
                        else orderType n);
          recurringMode' = (if \<not> str_truthy (recurringMode n)
                               \<or> recurringMode n \<notin> {Val ''am'', Val ''qu''}
                            then Val ''am'' else recurringMode n);
          coin' = (if str_truthy (coin n) then upper_js (coin n) else coin n);
          symbol' = (if str_truthy (symbol n) then upper_js (symbol n) else symbol n)
      in n\<lparr> price := price', initialAmount := initialAmount', initialQuantity := initialQuantity',
            orderType := orderType', recurringMode := recurringMode', coin := coin',
            symbol := symbol' \<rparr>)"

text \<open>The number behind a truthy numeric property.\<close>

fun truthy_num :: "jsnum js \<Rightarrow> jsnum option" where
  "truthy_num (Val n) = (if num_truthy n then Some n else None)"
| "truthy_num _ = None"

subsection \<open>Results\<close>

text \<open>In \<open>details\<close>, \<open>price || 'market'\<close> is \<open>None\<close> when it is the string \<open>'market'\<close>.\<close>

record details =
  d_action :: string
  d_symbol :: string
  d_coin :: string
  d_amount :: numtext
  d_orderType :: string
  d_price :: "jsnum option"
  d_recurringMode :: string
  d_timestamp :: string

datatype result = Failure string | Success item details

fun ordId :: "item \<Rightarrow> string js" where
  "ordId (OrderAck i) = Val i"
| "ordId _ = Undefined"

subsection \<open>Sizing the order\<close>

definition insufficient :: "balance option \<Rightarrow> jsnum \<Rightarrow> bool" where
  "insufficient bal tradingAmount =
     (case bal of None \<Rightarrow> True | Some b \<Rightarrow> jless (available b) tradingAmount)"

text \<open>
  The buy branch of the sizing: \<open>Inl\<close> is the error returned, \<open>Inr\<close> the pair of
  \<open>positionSize\<close> and \<open>tradingAmount\<close> (\<open>None\<close> while it is still \<open>undefined\<close>).
\<close>

definition sizeBuy ::
  "redis \<Rightarrow> balance option \<Rightarrow> signal \<Rightarrow> string \<Rightarrow> (string + numtext \<times> jsnum option) \<times> redis" where
  "sizeBuy db bal v c =
     (let (first, db1) = isFirstTrade db c (category v) (subcategory v)
      in if first then
           (case truthy_num (initialQuantity v) of
              Some q \<Rightarrow> (Inr (ToString q, None), db1)
            | None \<Rightarrow>
                (case truthy_num (initialAmount v) of
                   Some a \<Rightarrow>
                     if insufficient bal a then (Inl ''Insufficient USDT balance for trade'', db1)
                     else (Inr (ToString a, Some a), db1)
                 | None \<Rightarrow>
                     if insufficient bal BUY_AMOUNT_USDT
                     then (Inl ''Insufficient USDT balance for trade'', db1)
                     else (Inr (ToString BUY_AMOUNT_USDT, Some BUY_AMOUNT_USDT), db1)))
         else
           (let (tradingAmount, db2) = getTradingBalance db1 c (category v) (subcategory v)
            in if insufficient bal tradingAmount
               then (Inl ''Insufficient USDT balance for trade'', db2)
               else (Inr (ToString tradingAmount, Some tradingAmount), db2)))"

definition sizeSell ::
  "redis \<Rightarrow> signal \<Rightarrow> string \<Rightarrow> (string + numtext \<times> jsnum option) \<times> redis" where
  "sizeSell db v c =
     (let strategyRef = getStrategyKey c (category v) (subcategory v);
          (buyPosition, db1) = getBuyPosition db c (category v) (subcategory v);
          (first, db2) = isFirstTrade db1 c (category v) (subcategory v)
      in if first then
           (case truthy_num (initialQuantity v) of
              Some q \<Rightarrow> (Inr (ToString q, None), db2)
            | None \<Rightarrow>
                if recurringMode v = Val ''am'' then
                  (Inl (''Cannot sell on first trade for Am mode. Must buy first - Strategy: ''
                        @ strategyRef), db2)
                else
                  (case buyPosition of
                     None \<Rightarrow> (Inl (''No buy position to sell for strategy: '' @ strategyRef), db2)
                   | Some p \<Rightarrow> (Inr (ToString (p_quantity p), None), db2)))
         else
           (case buyPosition of
              None \<Rightarrow> (Inl (''No buy position to sell for strategy: '' @ strategyRef), db2)
            | Some p \<Rightarrow> (Inr (ToString (p_quantity p), None), db2)))"

subsection \<open>Placing the order and keeping the books\<close>

definition submitOrder ::
  "okx \<Rightarrow> signal \<Rightarrow> string \<Rightarrow> string \<Rightarrow> numtext \<Rightarrow> item option \<times> okx" where
  "submitOrder ex v symb act positionSize =
     (case truthy_num (price v) of
        Some px \<Rightarrow>
          if orderType v = Val ''limit'' then placeLimitOrder ex symb act positionSize px
          else placeMarketOrder ex symb act positionSize
      | None \<Rightarrow> placeMarketOrder ex symb act positionSize)"

definition fallback_price :: "ticker option \<Rightarrow> signal \<Rightarrow> jsnum" where
  "fallback_price tk v =
     (case tk of
        Some t \<Rightarrow> last t
      | None \<Rightarrow> (case truthy_num (price v) of Some px \<Rightarrow> px | None \<Rightarrow> Num 0))"

text \<open>
  After a buy: the ticker gives the purchase price. With \<open>initialQuantity\<close> the quantity
  is that number; otherwise the amount spent is \<open>tradingAmount\<close>, which the sizing has
  assigned in that case.
\<close>

definition recordBuy ::
  "clock \<Rightarrow> manager \<Rightarrow> signal \<Rightarrow> string \<Rightarrow> string \<Rightarrow> item \<Rightarrow> jsnum option \<Rightarrow> manager" where
  "recordBuy clk m v symb c ord tradingAmount =
     (let (tk, ex') = getTicker (okxClient m) symb;
          purchasePrice = fallback_price tk v;
          (quantityBought, amountSpent) =
             (case truthy_num (initialQuantity v) of
                Some q \<Rightarrow> (q, jmul q purchasePrice)
              | None \<Rightarrow>
                  (let amountSpent = (case tradingAmount of Some a \<Rightarrow> a | None \<Rightarrow> NaN)
                   in (if jgreater purchasePrice (Num 0) then jdiv amountSpent purchasePrice
                       else Num 0, amountSpent)));
          (stored, db') = storeBuyOrder (database m) c (category v) (subcategory v)
                            quantityBought purchasePrice amountSpent (ordId ord)
                            (date_toISOString clk)
      in m\<lparr> okxClient := ex', database := db' \<rparr>)"

definition recordSell ::
  "manager \<Rightarrow> signal \<Rightarrow> string \<Rightarrow> string \<Rightarrow> numtext \<Rightarrow> manager" where
  "recordSell m v symb c positionSize =
     (let (tk, ex') = getTicker (okxClient m) symb;
          currentPrice = fallback_price tk v;
          soldQuantity = parseFloat positionSize;
          sellProceeds = jmul currentPrice soldQuantity;
          db1 = (if recurringMode v = Val ''am'' then
                   snd (storeTradingBalance (database m) c (category v) (subcategory v)
                          sellProceeds)
                 else if recurringMode v = Val ''qu'' then
                   (case getBuyPosition (database m) c (category v) (subcategory v) of
                      (Some buyPosition, db') \<Rightarrow>
                        snd (storeTradingBalance db' c (category v) (subcategory v)
                               (p_usdtSpent buyPosition))
                    | (None, db') \<Rightarrow> db')
                 else database m);
          (cleared, db2) = clearBuyPosition db1 c (category v) (subcategory v)
      in m\<lparr> okxClient := ex', database := db2 \<rparr>)"

subsection \<open>processSignal\<close>

text \<open>
  \<open>executeSignal\<close> is \<open>processSignal\<close> from the cooldown check to its end, for a signal
  that has passed the validation and the eligibility check.
\<close>

definition executeSignal ::
  "clock \<Rightarrow> manager \<Rightarrow> signal \<Rightarrow> string \<Rightarrow> string \<Rightarrow> string \<Rightarrow> result \<times> manager" where
  "executeSignal clk m v act symb c =
     (if isInCooldown m clk symb act (subcategory v)
      then (Failure ''Signal in cooldown period'', m)
      else
        (case checkDailyLimit m clk of
           (False, m1) \<Rightarrow> (Failure ''Daily trade limit reached'', m1)
         | (True, m1) \<Rightarrow>
             let (bal, ex1) = getBalance (okxClient m1) ''USDT'';
                 (sized, db1) = (if act = ''buy'' then sizeBuy (database m1) bal v c
                                 else sizeSell (database m1) v c);
                 m2 = m1\<lparr> okxClient := ex1, database := db1 \<rparr>
             in (case sized of
                   Inl err \<Rightarrow> (Failure err, m2)
                 | Inr (positionSize, tradingAmount) \<Rightarrow>
                     let (order, ex2) = submitOrder (okxClient m2) v symb act positionSize;
                         m3 = m2\<lparr> okxClient := ex2 \<rparr>
                     in (case order of
                           None \<Rightarrow> (Failure ''Order execution failed'', m3)
                         | Some ord \<Rightarrow>
                             let m4 = setCooldown m3 clk symb act (subcategory v);
                                 m5 = (if act = ''buy''
                                       then recordBuy clk m4 v symb c ord tradingAmount
                                       else recordSell m4 v symb c positionSize)
                             in (Success ord
                                   \<lparr> d_action = act, d_symbol = symb, d_coin = c,
                                     d_amount = positionSize, d_orderType = render (orderType v),
                                     d_price = truthy_num (price v),
                                     d_recurringMode = render (recurringMode v),
                                     d_timestamp = date_toISOString clk \<rparr>, m5)))))"

definition apostrophe :: string where
  "apostrophe = [CHR 0x27]"

definition processSignal :: "clock \<Rightarrow> manager \<Rightarrow> signal \<Rightarrow> result \<times> manager" where
  "processSignal clk m sig =
     (let v = with_defaults (normalizedSignal sig)
      in if orderType v \<notin> {Val ''market'', Val ''limit''} then
           (Failure (''Invalid orderType: '' @ render (orderType v) @ ''. Must be '' @ apostrophe
                     @ ''market'' @ apostrophe @ '' or '' @ apostrophe @ ''limit'' @ apostrophe), m)
         else if \<not> str_truthy (action v) \<or> action v \<notin> {Val ''buy'', Val ''sell''} then
           (Failure ''Invalid or missing action'', m)
         else if \<not> str_truthy (symbol v) \<or> \<not> str_truthy (coin v) then
           (Failure ''Missing coin or symbol information'', m)
         else
           (let act = render (action v); symb = render (symbol v); c = render (coin v);
                (symbolValid, ex1) = validateSymbol (okxClient m) symb;
                m1 = m\<lparr> okxClient := ex1 \<rparr>
            in if \<not> symbolValid then
                 (Failure (''Symbol '' @ symb @ '' not available on OKX''), m1)
               else
                 (let (cb, db1) = canBuy (database m1) c (category v) (subcategory v);
                      (cs, db2) = canSell db1 c (category v) (subcategory v);
                      strategyRef = getStrategyKey c (category v) (subcategory v);
                      m2 = m1\<lparr> database := db2 \<rparr>
                  in if act = ''buy'' \<and> \<not> cb then
                       (Failure (''Already have active position for strategy: '' @ strategyRef), m2)
                     else if act = ''sell'' \<and> \<not> cs then
                       (Failure (''No active position to sell for strategy: '' @ strategyRef), m2)
                     else executeSignal clk m2 v act symb c)))"

section \<open>Notions used in the properties\<close>

text \<open>The \<open>success\<close> field of the object \<open>processSignal\<close> returns.\<close>

fun success :: "result \<Rightarrow> bool" where
  "success (Success _ _) = True"
| "success (Failure _) = False"

text \<open>
  The order requests and the conditional (stop) order requests among those sent, and the
  size \<open>sz\<close> a request carries.
\<close>

definition orders :: "okx \<Rightarrow> req list" where
  "orders ex = filter (\<lambda>r. path r = ''/api/v5/trade/order'') (sent ex)"

definition stop_orders :: "okx \<Rightarrow> req list" where
  "stop_orders ex = filter (\<lambda>r. path r = ''/api/v5/trade/order-algo'') (sent ex)"

definition sz :: "req \<Rightarrow> field option" where
  "sz r = (case body r of Some b \<Rightarrow> map_of b ''sz'' | None \<Rightarrow> None)"

text \<open>
  What the exchange says to the instruments request for one identifier: \<open>None\<close> when the
  request fails, otherwise whether it reports an instrument. The identifiers
  \<open>validateSymbol\<close> asks for, in order.
\<close>

definition exchange_reports :: "okx \<Rightarrow> string \<Rightarrow> bool option" where
  "exchange_reports ex instId =
     (case answer ex (Req ''GET'' ''/api/v5/public/instruments''
                        (Some (instruments_params instId)) None) of
        Throws \<Rightarrow> None
      | Reply code d \<Rightarrow> Some (instrument_found code d))"

definition candidates :: "string \<Rightarrow> string list" where
  "candidates symb = symb # filter (\<lambda>alt. alt \<noteq> symb) (alternatives symb)"

definition found_in_turn :: "okx \<Rightarrow> string list \<Rightarrow> bool" where
  "found_in_turn ex cs =
     (\<exists>ys v zs. cs = ys @ v # zs \<and> exchange_reports ex v = Some True
                \<and> (\<forall>y \<in> set ys. exchange_reports ex y = Some False))"

text \<open>
  The requests the client builds: the body of a market and of a limit order, the order
  request \<open>processSignal\<close> submits for a signal, the ticker and the balance request.
\<close>

definition market_body :: "string \<Rightarrow> string \<Rightarrow> numtext \<Rightarrow> obj" where
  "market_body symb side amt =
     [(''instId'', Str symb), (''tdMode'', Str ''cash''), (''side'', Str side),
      (''ordType'', Str ''market''), (''sz'', NumText amt)]"

definition limit_body :: "string \<Rightarrow> string \<Rightarrow> numtext \<Rightarrow> jsnum \<Rightarrow> obj" where
  "limit_body symb side amt px =
     [(''instId'', Str symb), (''tdMode'', Str ''cash''), (''side'', Str side),
      (''ordType'', Str ''limit''), (''sz'', NumText amt), (''px'', NumText (ToString px))]"

definition order_req :: "signal \<Rightarrow> string \<Rightarrow> string \<Rightarrow> numtext \<Rightarrow> req" where
  "order_req v symb act ps =
     Req ''POST'' ''/api/v5/trade/order'' None
       (Some (case truthy_num (price v) of
                Some px \<Rightarrow> if orderType v = Val ''limit'' then limit_body symb act ps px
                           else market_body symb act ps
              | None \<Rightarrow> market_body symb act ps))"

definition ticker_req :: "string \<Rightarrow> req" where
  "ticker_req symb = Req ''GET'' ''/api/v5/market/ticker'' (Some [(''instId'', Str symb)]) None"

definition balance_req :: req where
  "balance_req = Req ''GET'' ''/api/v5/account/balance'' None None"

text \<open>
  The sizing step of \<open>processSignal\<close> for either side, and the manager with which a signal
  that has passed the symbol check and the eligibility check goes on.
\<close>

definition sizing ::
  "manager \<Rightarrow> signal \<Rightarrow> string \<Rightarrow> string \<Rightarrow> (string + numtext \<times> jsnum option) \<times> redis" where
  "sizing m v act c =
     (if act = ''buy''
      then sizeBuy (database m) (balance_result ''USDT'' (answer (okxClient m) balance_req)) v c
      else sizeSell (database m) v c)"

definition gate_state :: "manager \<Rightarrow> signal \<Rightarrow> manager" where
  "gate_state m v =
     m\<lparr> okxClient := snd (validateSymbol (okxClient m) (render (symbol v))),
        database := snd (canSell (snd (canBuy (database m) (render (coin v)) (category v)
                                         (subcategory v)))
                          (render (coin v)) (category v) (subcategory v)) \<rparr>"

text \<open>
  From \<open>ex\<close> to \<open>ex'\<close> the order requests \<open>os\<close> were added, no stop order request was, and
  the exchange answers as before.
\<close>

definition log_extends :: "okx \<Rightarrow> okx \<Rightarrow> req list \<Rightarrow> bool" where
  "log_extends ex ex' os =
     (orders ex' = orders ex @ os \<and> stop_orders ex' = stop_orders ex \<and> answer ex' = answer ex)"

text \<open>The next \<open>n\<close> commands of the client are carried out.\<close>

definition answered :: "redis \<Rightarrow> nat \<Rightarrow> bool" where
  "answered db n = (True \<notin> set (take n (outages db)))"

text \<open>
  The \<open>n\<close>-th of the coming commands of the client throws. The ledger as the bookkeeping
  that follows an order finds it: after the reads of the eligibility check and of the
  sizing.
\<close>

definition throws_at :: "redis \<Rightarrow> nat \<Rightarrow> bool" where
  "throws_at db n = (n < length (outages db) \<and> outages db ! n)"

definition books_ledger :: "manager \<Rightarrow> signal \<Rightarrow> redis" where
  "books_ledger m v = snd (sizing (gate_state m v) v (render (action v)) (render (coin v)))"


text \<open>
  The key and the value of a line of an alert as the loop of \<open>parseMessage\<close> reads them
  (no key when the line has no colon), and the value of the last of the lines that carry
  the key \<open>k\<close>.
\<close>

definition key_of :: "string \<Rightarrow> string option" where
  "key_of line =
     (if CHR '':'' \<in> set line then Some (trim (toLowerCase (hd (split CHR '':'' line)))) else None)"

definition value_of :: "string \<Rightarrow> string" where
  "value_of line = trim (join '':'' (tl (split CHR '':'' line)))"

definition last_value :: "string \<Rightarrow> string list \<Rightarrow> string option" where
  "last_value k ls = map_option value_of (find (\<lambda>l. key_of l = Some k) (rev ls))"

text \<open>A numeric property that is not a number equal to zero and not \<open>NaN\<close>.\<close>

definition nonzero_or_absent :: "jsnum js \<Rightarrow> bool" where
  "nonzero_or_absent v = (v \<noteq> Val NaN \<and> v \<noteq> Val (Num 0))"

definition numbers_ok :: "signal \<Rightarrow> bool" where
  "numbers_ok s = (nonzero_or_absent (quantity s) \<and> nonzero_or_absent (amount s)
     \<and> nonzero_or_absent (price s) \<and> nonzero_or_absent (initialAmount s)
     \<and> nonzero_or_absent (initialQuantity s))"

section \<open>Concrete inputs\<close>

text \<open>A platform whose signature function shows the key and the message it was given.\<close>

definition pl0 :: platform where
  "pl0 = \<lparr> hmac_sha256_base64 = (\<lambda>k msg. ''mac('' @ k @ '','' @ msg @ '')''),
           urlSearchParams = (\<lambda>ps. ''instId=DOGE-USDT''),
           json_stringify = (\<lambda>bd. ''{}''),
           toISOString = ''2024-05-01T10:00:00.000Z'' \<rparr>"

definition c0 :: client where
  "c0 = \<lparr> apiKey = ''k'', secretKey = ''s'', passphrase = ''p'',
          baseURL = ''https://www.okx.com'' \<rparr>"

text \<open>
  An exchange that knows every instrument, holds 5000 USDT, acknowledges every order with
  the id 77 and quotes the price \<open>px\<close>; it has no conditional orders.
\<close>

definition ans0 :: "jsnum \<Rightarrow> req \<Rightarrow> reply" where
  "ans0 px r =
     (if path r = ''/api/v5/public/instruments'' then Reply ''0'' (Some [Instrument ''DOGE-USDT''])
      else if path r = ''/api/v5/account/balance''
        then Reply ''0'' (Some [AccountData [(''USDT'', Num 5000, Num 5000)]])
      else if path r = ''/api/v5/trade/order'' then Reply ''0'' (Some [OrderAck ''77''])
      else if path r = ''/api/v5/market/ticker'' then Reply ''0'' (Some [TickerData px px px px])
      else Throws)"

text \<open>The same exchange with the ticker down, and one that rejects stop orders by code.\<close>

definition ans_no_ticker :: "req \<Rightarrow> reply" where
  "ans_no_ticker r = (if path r = ''/api/v5/market/ticker'' then Throws else ans0 NaN r)"

definition ans_stop_rejected :: "req \<Rightarrow> reply" where
  "ans_stop_rejected r =
     (if path r = ''/api/v5/trade/order-algo'' then Reply ''51000'' None else ans0 (Num 2) r)"

definition exchange :: "(req \<Rightarrow> reply) \<Rightarrow> okx" where
  "exchange a = \<lparr> answer = a, sent = [] \<rparr>"

text \<open>Instrument lookups: two misses then a hit; and a failed first request.\<close>

definition ans_underscore :: "req \<Rightarrow> reply" where
  "ans_underscore r =
     (if params r = Some (instruments_params ''SOL_USDT'') then Reply ''0'' (Some [Instrument ''SOL_USDT''])
      else if params r = Some (instruments_params ''SOLUSDT'') then Reply ''51001'' None
      else Reply ''0'' (Some []))"

definition ans_first_throws :: "req \<Rightarrow> reply" where
  "ans_first_throws r =
     (if params r = Some (instruments_params ''SOL-USDT'') then Throws
      else Reply ''0'' (Some [Instrument ''SOL'']))"

definition clk0 :: clock where
  "clk0 = \<lparr> date_now = 1700000000000, date_toDateString = ''Tue Nov 14 2023'',
            date_toISOString = ''2023-11-14T22:13:20.000Z'' \<rparr>"

text \<open>
  Ledgers for the strategy \<open>DOGE:momentum:1m\<close>: empty; with an open position of 1250 DOGE
  bought for 100 USDT; with a stored balance of 50 USDT; with a position of quantity 0.
\<close>

definition db_empty :: "bool list \<Rightarrow> redis" where
  "db_empty outs = \<lparr> hashes = Map.empty, strings = Map.empty, outages = outs \<rparr>"

definition doge_position :: "jsnum \<Rightarrow> buy_hash" where
  "doge_position q =
     \<lparr> h_quantity = ToString q, h_price = ToString (Num (2 / 25)),
       h_usdtSpent = ToString (Num 100), h_orderId = Val ''76'',
       h_timestamp = ''2023-11-14T20:00:00.000Z'', h_status = ''active'', h_coin = ''DOGE'',
       h_category = Val ''momentum'', h_subcategory = Val ''1m'' \<rparr>"

definition db_open :: "jsnum \<Rightarrow> bool list \<Rightarrow> redis" where
  "db_open q outs =
     \<lparr> hashes = [''buy:DOGE:momentum:1m'' \<mapsto> doge_position q], strings = Map.empty,
       outages = outs \<rparr>"

definition db_balance :: "bool list \<Rightarrow> redis" where
  "db_balance outs =
     \<lparr> hashes = Map.empty, strings = [''balance:DOGE:momentum:1m'' \<mapsto> ToString (Num 50)],
       outages = outs \<rparr>"


definition manager0 :: "(req \<Rightarrow> reply) \<Rightarrow> redis \<Rightarrow> manager" where
  "manager0 a db =
     \<lparr> cooldowns = Map.empty, dailyTrades = Map.empty, okxClient = exchange a, database = db \<rparr>"

definition doge_signal :: "string \<Rightarrow> signal" where
  "doge_signal act =
     empty_signal\<lparr> action := Val act, symbol := Val ''DOGE-USDT'', coin := Val ''doge'',
                   category := Val ''momentum'', subcategory := Val ''1m'' \<rparr>"

text \<open>
  The parser of the language on the texts the examples use, and a text alert: its price
  is 0 (a no-break space follows it), its last amount line does not hold a number, and it
  has no order type line.
\<close>

definition pf0 :: "string \<Rightarrow> jsnum" where
  "pf0 t = (if t = ''0'' then Num 0 else if t = ''0.5'' then Num (1 / 2) else NaN)"

definition alert0 :: string where
  "alert0 = ''Coin: doge\<newline>cat: momentum\<newline>scat: 1m\<newline>  action: BUY \<newline>\<newline>price: 0''
       @ [CHR 0xA0] @ ''\<newline>amount: 0.5\<newline>Amount : abc\<newline>initialamount: 0.5''"

section \<open>Properties\<close>

subsection \<open>Lemmas on the parser\<close>

lemma split_not_Nil: "split c s \<noteq> []"
  by (induction s) (auto split: list.splits)

lemma number_or_null_cases:
  "number_or_null n = (if n = NaN \<or> n = Num 0 then Null else Val n)"
  by (cases n) (auto simp: number_or_null_def)

lemma last_value_snoc:
  "last_value k (ls @ [l]) = (if key_of l = Some k then Some (value_of l) else last_value k ls)"
  by (simp add: last_value_def)

lemma parseLine_fields:
  "quantity (parseLine pf p l)
     = (if key_of l = Some ''quantity'' then number_or_null (pf (value_of l)) else quantity p)"
  "amount (parseLine pf p l)
     = (if key_of l = Some ''amount'' then number_or_null (pf (value_of l)) else amount p)"
  "price (parseLine pf p l)
     = (if key_of l = Some ''price'' then number_or_null (pf (value_of l)) else price p)"
  "initialAmount (parseLine pf p l)
     = (if key_of l = Some ''initialamount'' then number_or_null (pf (value_of l)) else initialAmount p)"
  "initialQuantity (parseLine pf p l)
     = (if key_of l = Some ''initialquantity'' then number_or_null (pf (value_of l))
        else initialQuantity p)"
  "orderType (parseLine pf p l)
     = (if key_of l = Some ''ordertype'' then Val (toLowerCase (value_of l)) else orderType p)"
  using split_not_Nil [of "CHR '':''" l]
  by (cases "split CHR '':'' l"; simp add: parseLine_def key_of_def value_of_def Let_def)+

lemma foldl_last_value:
  assumes "\<And>p l. f (parseLine pf p l) = (if key_of l = Some k then g (value_of l) else f p)"
  shows "f (foldl (parseLine pf) p ls) = (case last_value k ls of None \<Rightarrow> f p | Some t \<Rightarrow> g t)"
proof (induction ls rule: rev_induct)
  case Nil
  then show ?case by (simp add: last_value_def)
next
  case (snoc l ls)
  then show ?case by (simp add: assms last_value_snoc)
qed

lemma parseMessage_Inr:
  "parseMessage pf msg = Inr s \<Longrightarrow> s = foldl (parseLine pf) empty_signal (message_lines msg)"
  by (simp add: parseMessage_def Let_def split: if_splits)


lemma nonzero_number_or_null: "nonzero_or_absent (number_or_null n)"
  by (cases n) (auto simp: number_or_null_def nonzero_or_absent_def)

lemma parseLine_numbers_ok: "numbers_ok parsed \<Longrightarrow> numbers_ok (parseLine pf parsed line)"
  unfolding parseLine_def numbers_ok_def
  by (simp add: Let_def nonzero_number_or_null split: list.splits)

lemma foldl_numbers_ok: "numbers_ok parsed \<Longrightarrow> numbers_ok (foldl (parseLine pf) parsed ls)"
  by (induction ls arbitrary: parsed) (simp_all add: parseLine_numbers_ok)

lemma parseMessage_numbers_ok: "parseMessage pf msg = Inr s \<Longrightarrow> numbers_ok s"
  unfolding parseMessage_def Let_def
  using foldl_numbers_ok [of empty_signal pf "message_lines msg"]
  by (auto simp: numbers_ok_def empty_signal_def nonzero_or_absent_def split: if_splits)

lemma market_default:
  "\<not> numjs_truthy (price sig) \<Longrightarrow> \<not> str_truthy (normalize_value (orderType sig))
   \<Longrightarrow> orderType (with_defaults (normalizedSignal sig)) = Val ''market''
     \<and> price (with_defaults (normalizedSignal sig)) = Null"
  by (simp add: with_defaults_def normalizedSignal_def Let_def or_null_def)

lemma submit_market:
  "truthy_num (price v) = None \<Longrightarrow>
   submitOrder ex v symb act ps = placeMarketOrder ex symb act ps"
  by (simp add: submitOrder_def)

subsection \<open>Lemmas on the instrument lookup\<close>

lemma found_in_turn_Nil: "\<not> found_in_turn ex []"
  by (simp add: found_in_turn_def)

lemma found_in_turn_Cons:
  "found_in_turn ex (c # cs) =
     (case exchange_reports ex c of
        None \<Rightarrow> False
      | Some True \<Rightarrow> True
      | Some False \<Rightarrow> found_in_turn ex cs)"
proof (cases "exchange_reports ex c")
  case None
  then show ?thesis
    by (auto simp: found_in_turn_def Cons_eq_append_conv)
next
  case (Some b)
  show ?thesis
  proof (cases b)
    case True
    with Some have "c # cs = [] @ c # cs \<and> exchange_reports ex c = Some True
        \<and> (\<forall>y \<in> set []. exchange_reports ex y = Some False)" by simp
    then have "found_in_turn ex (c # cs)" unfolding found_in_turn_def by blast
    with Some True show ?thesis by simp
  next
    case False
    have "found_in_turn ex (c # cs) = found_in_turn ex cs"
    proof
      assume "found_in_turn ex (c # cs)"
      then obtain ys v zs where d: "c # cs = ys @ v # zs" "exchange_reports ex v = Some True"
          "\<forall>y \<in> set ys. exchange_reports ex y = Some False"
        unfolding found_in_turn_def by blast
      from d Some False obtain ys' where "ys = c # ys'"
        by (cases ys) auto
      with d show "found_in_turn ex cs" unfolding found_in_turn_def by auto
    next
      assume "found_in_turn ex cs"
      then obtain ys v zs where d: "cs = ys @ v # zs" "exchange_reports ex v = Some True"
          "\<forall>y \<in> set ys. exchange_reports ex y = Some False"
        unfolding found_in_turn_def by blast
      with Some False have "c # cs = (c # ys) @ v # zs \<and> exchange_reports ex v = Some True
          \<and> (\<forall>y \<in> set (c # ys). exchange_reports ex y = Some False)" by simp
      then show "found_in_turn ex (c # cs)" unfolding found_in_turn_def by blast
    qed
    with Some False show ?thesis by simp
  qed
qed

lemma exchange_reports_sent [simp]:
  "exchange_reports (ex\<lparr> sent := rs \<rparr>) = exchange_reports ex"
  by (rule ext) (simp add: exchange_reports_def)

lemma found_in_turn_sent [simp]:
  "found_in_turn (ex\<lparr> sent := rs \<rparr>) cs = found_in_turn ex cs"
  by (simp add: found_in_turn_def)

lemma try_alternatives_found:
  "fst (try_alternatives ex symb alts) = found_in_turn ex (filter (\<lambda>alt. alt \<noteq> symb) alts)"
proof (induction alts arbitrary: ex)
  case Nil
  then show ?case by (simp add: found_in_turn_Nil)
next
  case (Cons alt alts)
  show ?case
  proof (cases "alt = symb")
    case True
    then show ?thesis using Cons by simp
  next
    case False
    show ?thesis
    proof (cases "answer ex (Req ''GET'' ''/api/v5/public/instruments''
                        (Some (instruments_params alt)) None)")
      case Throws
      with False show ?thesis
        by (simp add: request_def found_in_turn_Cons exchange_reports_def)
    next
      case (Reply code d)
      with False Cons show ?thesis
        by (simp add: request_def found_in_turn_Cons exchange_reports_def)
    qed
  qed
qed

lemma validateSymbol_found:
  "fst (validateSymbol ex symb) = found_in_turn ex (candidates symb)"
proof (cases "answer ex (Req ''GET'' ''/api/v5/public/instruments''
                        (Some (instruments_params symb)) None)")
  case Throws
  then show ?thesis
    by (simp add: validateSymbol_def request_def candidates_def found_in_turn_Cons
                  exchange_reports_def)
next
  case (Reply code d)
  then show ?thesis
    by (simp add: validateSymbol_def request_def candidates_def found_in_turn_Cons
                  exchange_reports_def try_alternatives_found)
qed

lemma found_in_turn_no_throw:
  "\<forall>c \<in> set cs. exchange_reports ex c \<noteq> None \<Longrightarrow>
   found_in_turn ex cs = (\<exists>c \<in> set cs. exchange_reports ex c = Some True)"
  by (induction cs) (auto simp: found_in_turn_Nil found_in_turn_Cons split: option.splits bool.splits)

subsection \<open>Lemmas on the ledger\<close>

lemma command_answered: "outages db = [] \<Longrightarrow> command db = (False, db)"
  by (simp add: command_def)

lemma isFirstTrade_fresh:
  "hashes db (''buy:'' @ getStrategyKey c cat sub) = None \<Longrightarrow>
   strings db (''balance:'' @ getStrategyKey c cat sub) = None \<Longrightarrow>
   fst (isFirstTrade db c cat sub)"
  by (auto simp: isFirstTrade_def command_def Let_def split: list.splits prod.splits)

lemma isFirstTrade_after_buy:
  "storeBuyOrder db c cat sub q px spent oid ts = (True, db') \<Longrightarrow> answered db' 2 \<Longrightarrow>
   \<not> fst (isFirstTrade db' c cat sub)"
  by (auto simp: storeBuyOrder_def isFirstTrade_def command_def Let_def answered_def
      split: list.splits prod.splits if_splits)

lemma isFirstTrade_after_balance:
  "storeTradingBalance db c cat sub a = (True, db') \<Longrightarrow> answered db' 2 \<Longrightarrow>
   \<not> fst (isFirstTrade db' c cat sub)"
  by (auto simp: storeTradingBalance_def isFirstTrade_def command_def Let_def answered_def
      split: list.splits prod.splits if_splits)

lemma failed_reads:
  "fst (command db) \<Longrightarrow>
     fst (getTradingBalance db c cat sub) = BUY_AMOUNT_USDT
   \<and> fst (isFirstTrade db c cat sub)
   \<and> fst (getBuyPosition db c cat sub) = None
   \<and> fst (canBuy db c cat sub) \<and> \<not> fst (canSell db c cat sub)"
  by (auto simp: getTradingBalance_def isFirstTrade_def getBuyPosition_def canBuy_def canSell_def
       Let_def split: prod.splits)


lemma ToString_parseFloat [simp]: "ToString (parseFloat x) = x"
  by (cases x) simp

lemma nf_getBuyPosition:
  "outages db = [] \<Longrightarrow> getBuyPosition db c cat sub =
     (map_option (read_position (getStrategyKey c cat sub)) (hashes db (''buy:'' @ getStrategyKey c cat sub)), db)"
  by (simp add: getBuyPosition_def command_answered Let_def split: option.splits)

lemma nf_canBuy:
  "outages db = [] \<Longrightarrow> canBuy db c cat sub =
     ((case hashes db (''buy:'' @ getStrategyKey c cat sub) of None \<Rightarrow> True
        | Some d \<Rightarrow> h_status d \<noteq> ''active''), db)"
  by (simp add: canBuy_def nf_getBuyPosition read_position_def split: option.splits)









lemma command_contents: "hashes (snd (command db)) = hashes db \<and> strings (snd (command db)) = strings db"
  by (simp add: command_def split: list.splits)

lemma getBuyPosition_contents:
  "hashes (snd (getBuyPosition db c cat sub)) = hashes db \<and> strings (snd (getBuyPosition db c cat sub)) = strings db"
  using command_contents [of db]
  by (auto simp: getBuyPosition_def Let_def split: prod.splits option.splits)

lemma canBuy_contents:
  "hashes (snd (canBuy db c cat sub)) = hashes db \<and> strings (snd (canBuy db c cat sub)) = strings db"
  using getBuyPosition_contents [of db c cat sub]
  by (auto simp: canBuy_def Let_def split: prod.splits)

lemma canSell_contents:
  "hashes (snd (canSell db c cat sub)) = hashes db \<and> strings (snd (canSell db c cat sub)) = strings db"
  using getBuyPosition_contents [of db c cat sub]
  by (auto simp: canSell_def Let_def split: prod.splits)

subsection \<open>Lemmas on the requests sent\<close>

lemma getTicker_eq:
  "getTicker ex symb =
     (ticker_result (answer ex (Req ''GET'' ''/api/v5/market/ticker'' (Some [(''instId'', Str symb)]) None)),
      ex\<lparr> sent := sent ex @ [Req ''GET'' ''/api/v5/market/ticker'' (Some [(''instId'', Str symb)]) None] \<rparr>)"
  by (simp add: getTicker_def request_def)

lemma getBalance_eq:
  "getBalance ex ccy =
     (balance_result ccy (answer ex (Req ''GET'' ''/api/v5/account/balance'' None None)),
      ex\<lparr> sent := sent ex @ [Req ''GET'' ''/api/v5/account/balance'' None None] \<rparr>)"
  by (simp add: getBalance_def request_def)

lemma placeMarketOrder_eq:
  "placeMarketOrder ex symb side amt =
     (order_result (answer ex (Req ''POST'' ''/api/v5/trade/order'' None (Some (market_body symb side amt)))),
      ex\<lparr> sent := sent ex @ [Req ''POST'' ''/api/v5/trade/order'' None (Some (market_body symb side amt))] \<rparr>)"
  by (simp add: placeMarketOrder_def request_def market_body_def Let_def)

lemma placeLimitOrder_eq:
  "placeLimitOrder ex symb side amt px =
     (order_result (answer ex (Req ''POST'' ''/api/v5/trade/order'' None (Some (limit_body symb side amt px)))),
      ex\<lparr> sent := sent ex @ [Req ''POST'' ''/api/v5/trade/order'' None (Some (limit_body symb side amt px))] \<rparr>)"
  by (simp add: placeLimitOrder_def request_def limit_body_def Let_def)

lemma sz_market [simp]: "sz (Req m p ps (Some (market_body symb side amt))) = Some (NumText amt)"
  by (simp add: sz_def market_body_def)

lemma sz_limit [simp]: "sz (Req m p ps (Some (limit_body symb side amt px))) = Some (NumText amt)"
  by (simp add: sz_def limit_body_def)

lemma try_alternatives_sent:
  "\<exists>rs. snd (try_alternatives ex symb alts) = ex\<lparr> sent := sent ex @ rs \<rparr>
        \<and> (\<forall>r \<in> set rs. path r = ''/api/v5/public/instruments'')"
proof (induction alts arbitrary: ex)
  case Nil
  have "snd (try_alternatives ex symb []) = ex\<lparr> sent := sent ex @ [] \<rparr>" by simp
  then show ?case by fastforce
next
  case (Cons alt alts)
  show ?case
  proof (cases "alt = symb")
    case True
    then show ?thesis using Cons by simp
  next
    case False
    let ?q = "Req ''GET'' ''/api/v5/public/instruments'' (Some (instruments_params alt)) None"
    let ?ex = "ex\<lparr> sent := sent ex @ [?q] \<rparr>"
    from Cons [of ?ex] obtain rs where rs: "snd (try_alternatives ?ex symb alts) = ?ex\<lparr> sent := sent ?ex @ rs \<rparr>"
        "\<forall>r \<in> set rs. path r = ''/api/v5/public/instruments''" by blast
    have a: "snd (try_alternatives ex symb (alt # alts)) = ex\<lparr> sent := sent ex @ [?q] \<rparr>
          \<or> snd (try_alternatives ex symb (alt # alts)) = ex\<lparr> sent := sent ex @ (?q # rs) \<rparr>"
      using False rs by (simp add: request_def split: reply.splits)
    then show ?thesis
    proof
      assume "snd (try_alternatives ex symb (alt # alts)) = ex\<lparr> sent := sent ex @ [?q] \<rparr>"
      then have "snd (try_alternatives ex symb (alt # alts)) = ex\<lparr> sent := sent ex @ [?q] \<rparr>
           \<and> (\<forall>r \<in> set [?q]. path r = ''/api/v5/public/instruments'')" by simp
      then show ?thesis by blast
    next
      assume "snd (try_alternatives ex symb (alt # alts)) = ex\<lparr> sent := sent ex @ (?q # rs) \<rparr>"
      then have "snd (try_alternatives ex symb (alt # alts)) = ex\<lparr> sent := sent ex @ (?q # rs) \<rparr>
           \<and> (\<forall>r \<in> set (?q # rs). path r = ''/api/v5/public/instruments'')" using rs by simp
      then show ?thesis by blast
    qed
  qed
qed

lemma validateSymbol_sent:
  "\<exists>rs. snd (validateSymbol ex symb) = ex\<lparr> sent := sent ex @ rs \<rparr>
        \<and> (\<forall>r \<in> set rs. path r = ''/api/v5/public/instruments'')"
proof -
  let ?q = "Req ''GET'' ''/api/v5/public/instruments'' (Some (instruments_params symb)) None"
  let ?ex = "ex\<lparr> sent := sent ex @ [?q] \<rparr>"
  from try_alternatives_sent [of ?ex symb "alternatives symb"] obtain rs where
      rs: "snd (try_alternatives ?ex symb (alternatives symb)) = ?ex\<lparr> sent := sent ?ex @ rs \<rparr>"
        "\<forall>r \<in> set rs. path r = ''/api/v5/public/instruments''" by blast
  have "snd (validateSymbol ex symb) = ex\<lparr> sent := sent ex @ [?q] \<rparr>
          \<or> snd (validateSymbol ex symb) = ex\<lparr> sent := sent ex @ (?q # rs) \<rparr>"
    using rs by (simp add: validateSymbol_def request_def split: reply.splits)
  then show ?thesis
  proof
    assume "snd (validateSymbol ex symb) = ex\<lparr> sent := sent ex @ [?q] \<rparr>"
    then have "snd (validateSymbol ex symb) = ex\<lparr> sent := sent ex @ [?q] \<rparr>
           \<and> (\<forall>r \<in> set [?q]. path r = ''/api/v5/public/instruments'')" by simp
    then show ?thesis by blast
  next
    assume "snd (validateSymbol ex symb) = ex\<lparr> sent := sent ex @ (?q # rs) \<rparr>"
    then have "snd (validateSymbol ex symb) = ex\<lparr> sent := sent ex @ (?q # rs) \<rparr>
           \<and> (\<forall>r \<in> set (?q # rs). path r = ''/api/v5/public/instruments'')" using rs by simp
    then show ?thesis by blast
  qed
qed

lemma orders_instruments:
  "\<forall>r \<in> set rs. path r = ''/api/v5/public/instruments'' \<Longrightarrow>
   orders (ex\<lparr> sent := sent ex @ rs \<rparr>) = orders ex \<and> stop_orders (ex\<lparr> sent := sent ex @ rs \<rparr>) = stop_orders ex"
  by (induction rs) (auto simp: orders_def stop_orders_def)

lemma submitOrder_eq:
  "submitOrder ex v symb act ps =
     (order_result (answer ex (order_req v symb act ps)),
      ex\<lparr> sent := sent ex @ [order_req v symb act ps] \<rparr>)"
  by (simp add: submitOrder_def order_req_def placeMarketOrder_eq placeLimitOrder_eq
           split: option.splits)

lemma order_req_facts [simp]:
  "path (order_req v symb act ps) = ''/api/v5/trade/order''"
  "sz (order_req v symb act ps) = Some (NumText ps)"
  by (simp_all add: order_req_def split: option.splits)

lemma okx_recordBuy:
  "okxClient (recordBuy clk m v symb c ord ta) = snd (getTicker (okxClient m) symb)"
  by (simp add: recordBuy_def Let_def split: prod.splits)

lemma okx_recordSell:
  "okxClient (recordSell m v symb c ps) = snd (getTicker (okxClient m) symb)"
  by (simp add: recordSell_def Let_def split: prod.splits)

lemma checkDailyLimit_okx:
  "okxClient (snd (checkDailyLimit m clk)) = okxClient m
   \<and> database (snd (checkDailyLimit m clk)) = database m
   \<and> cooldowns (snd (checkDailyLimit m clk)) = cooldowns m"
  by (simp add: checkDailyLimit_def Let_def)

lemma getTicker_eq2: "getTicker ex symb = (ticker_result (answer ex (ticker_req symb)), ex\<lparr> sent := sent ex @ [ticker_req symb] \<rparr>)"
  by (simp add: getTicker_eq ticker_req_def)

lemma getBalance_eq2: "getBalance ex ccy = (balance_result ccy (answer ex balance_req), ex\<lparr> sent := sent ex @ [balance_req] \<rparr>)"
  by (simp add: getBalance_eq balance_req_def)

lemma req_paths [simp]: "path (ticker_req symb) = ''/api/v5/market/ticker''" "path balance_req = ''/api/v5/account/balance''"
  by (simp_all add: ticker_req_def balance_req_def)

subsection \<open>Lemmas on processSignal\<close>

lemma executeSignal_eq:
  "executeSignal clk m v act symb c =
     (if isInCooldown m clk symb act (subcategory v) then (Failure ''Signal in cooldown period'', m)
      else if \<not> fst (checkDailyLimit m clk) then (Failure ''Daily trade limit reached'', m)
      else
        (let m1 = snd (checkDailyLimit m clk);
             ex1 = (okxClient m)\<lparr> sent := sent (okxClient m) @ [balance_req] \<rparr>;
             sized = fst (sizing m v act c);
             m2 = m1\<lparr> okxClient := ex1, database := snd (sizing m v act c) \<rparr>
         in case sized of
              Inl err \<Rightarrow> (Failure err, m2)
            | Inr (ps, ta) \<Rightarrow>
                (let r = order_req v symb act ps;
                     m3 = m2\<lparr> okxClient := ex1\<lparr> sent := sent ex1 @ [r] \<rparr> \<rparr>
                 in case order_result (answer (okxClient m) r) of
                      None \<Rightarrow> (Failure ''Order execution failed'', m3)
                    | Some ord \<Rightarrow>
                        (Success ord
                                   \<lparr> d_action = act, d_symbol = symb, d_coin = c,
                                     d_amount = ps, d_orderType = render (orderType v),
                                     d_price = truthy_num (price v),
                                     d_recurringMode = render (recurringMode v),
                                     d_timestamp = date_toISOString clk \<rparr>,
                         if act = ''buy'' then recordBuy clk (setCooldown m3 clk symb act (subcategory v)) v symb c ord ta
                         else recordSell (setCooldown m3 clk symb act (subcategory v)) v symb c ps))))"
proof -
  obtain b m1 where cd: "checkDailyLimit m clk = (b, m1)" by (cases "checkDailyLimit m clk")
  have m1: "okxClient m1 = okxClient m" "database m1 = database m"
    using checkDailyLimit_okx [of m clk] cd by simp_all
  have unchanged: "\<not> b \<Longrightarrow> m1 = m"
    using cd by (simp add: checkDailyLimit_def Let_def split: if_splits)
  show ?thesis
    unfolding executeSignal_def sizing_def
    using unchanged
    by (cases b)
       (simp_all add: cd m1 Let_def case_prod_beta getBalance_eq2 submitOrder_eq
          split: sum.splits option.splits)
qed

lemma processSignal_eq:
  "processSignal clk m sig =
     (let v = with_defaults (normalizedSignal sig)
      in if orderType v \<notin> {Val ''market'', Val ''limit''} then
           (Failure (''Invalid orderType: '' @ render (orderType v) @ ''. Must be '' @ apostrophe
                     @ ''market'' @ apostrophe @ '' or '' @ apostrophe @ ''limit'' @ apostrophe), m)
         else if \<not> str_truthy (action v) \<or> action v \<notin> {Val ''buy'', Val ''sell''} then
           (Failure ''Invalid or missing action'', m)
         else if \<not> str_truthy (symbol v) \<or> \<not> str_truthy (coin v) then
           (Failure ''Missing coin or symbol information'', m)
         else
           (let act = render (action v); symb = render (symbol v); c = render (coin v);
                vs = validateSymbol (okxClient m) symb;
                cb = canBuy (database m) c (category v) (subcategory v);
                cs = canSell (snd cb) c (category v) (subcategory v);
                m2 = m\<lparr> okxClient := snd vs, database := snd cs \<rparr>
            in if \<not> fst vs then
                 (Failure (''Symbol '' @ symb @ '' not available on OKX''), m\<lparr> okxClient := snd vs \<rparr>)
               else if act = ''buy'' \<and> \<not> fst cb then
                 (Failure (''Already have active position for strategy: ''
                           @ getStrategyKey c (category v) (subcategory v)), m2)
               else if act = ''sell'' \<and> \<not> fst cs then
                 (Failure (''No active position to sell for strategy: ''
                           @ getStrategyKey c (category v) (subcategory v)), m2)
               else executeSignal clk m2 v act symb c))"
  by (simp add: processSignal_def Let_def case_prod_beta)

lemma executeSignal_log:
  "(log_extends (okxClient m) (okxClient (snd (executeSignal clk m v act symb c))) []
      \<and> \<not> success (fst (executeSignal clk m v act symb c)))
   \<or> (\<exists>ps ta. fst (sizing m v act c) = Inr (ps, ta)
        \<and> log_extends (okxClient m) (okxClient (snd (executeSignal clk m v act symb c)))
             [order_req v symb act ps]
        \<and> success (fst (executeSignal clk m v act symb c))
            = (order_result (answer (okxClient m) (order_req v symb act ps)) \<noteq> None))"
  by (simp add: executeSignal_eq Let_def log_extends_def orders_def stop_orders_def
        okx_recordBuy okx_recordSell getTicker_eq2 setCooldown_def checkDailyLimit_okx
      split: sum.splits option.splits)

lemma log_extends_instruments:
  assumes "snd (validateSymbol ex symb) = ex'"
  shows "log_extends ex ex' []"
proof -
  obtain rs where rs: "snd (validateSymbol ex symb) = ex\<lparr> sent := sent ex @ rs \<rparr>"
     "\<forall>r \<in> set rs. path r = ''/api/v5/public/instruments''"
    using validateSymbol_sent by blast
  from orders_instruments [OF rs(2), of ex] rs(1) assms show ?thesis
    by (auto simp: log_extends_def)
qed

lemma log_extends_trans:
  "log_extends ex ex' [] \<Longrightarrow> log_extends ex' ex'' os \<Longrightarrow> log_extends ex ex'' os"
  by (simp add: log_extends_def)

lemma processSignal_log:
  assumes v: "v = with_defaults (normalizedSignal sig)"
  shows "(log_extends (okxClient m) (okxClient (snd (processSignal clk m sig))) []
      \<and> \<not> success (fst (processSignal clk m sig)))
   \<or> (\<exists>ps ta. fst (sizing (gate_state m v) v (render (action v)) (render (coin v))) = Inr (ps, ta)
        \<and> log_extends (okxClient m) (okxClient (snd (processSignal clk m sig)))
             [order_req v (render (symbol v)) (render (action v)) ps]
        \<and> success (fst (processSignal clk m sig))
            = (order_result (answer (okxClient m) (order_req v (render (symbol v)) (render (action v)) ps)) \<noteq> None))"
proof -
  let ?vs = "validateSymbol (okxClient m) (render (symbol v))"
  have le: "log_extends (okxClient m) (snd ?vs) []"
    by (rule log_extends_instruments) simp
  have same: "log_extends (okxClient m) (okxClient m) []"
    by (simp add: log_extends_def)
  have ans: "answer (snd ?vs) = answer (okxClient m)"
    using le by (simp add: log_extends_def)
  note E = executeSignal_log [of "gate_state m v" clk v "render (action v)" "render (symbol v)" "render (coin v)"]
  have g: "okxClient (gate_state m v) = snd ?vs" by (simp add: gate_state_def)
  have E': "(log_extends (okxClient m) (okxClient (snd (executeSignal clk (gate_state m v) v (render (action v)) (render (symbol v)) (render (coin v))))) []
      \<and> \<not> success (fst (executeSignal clk (gate_state m v) v (render (action v)) (render (symbol v)) (render (coin v)))))
   \<or> (\<exists>ps ta. fst (sizing (gate_state m v) v (render (action v)) (render (coin v))) = Inr (ps, ta)
        \<and> log_extends (okxClient m) (okxClient (snd (executeSignal clk (gate_state m v) v (render (action v)) (render (symbol v)) (render (coin v)))))
             [order_req v (render (symbol v)) (render (action v)) ps]
        \<and> success (fst (executeSignal clk (gate_state m v) v (render (action v)) (render (symbol v)) (render (coin v))))
            = (order_result (answer (okxClient m) (order_req v (render (symbol v)) (render (action v)) ps)) \<noteq> None))"
    using E le unfolding g ans by (auto intro: log_extends_trans)
  show ?thesis
    unfolding processSignal_eq Let_def v [symmetric]
    using le same E' by (simp add: gate_state_def)
qed

lemma nf_canBuy_snd: "outages db = [] \<Longrightarrow> snd (canBuy db c cat sub) = db"
  by (simp add: nf_canBuy)



lemma gate_state_answer: "answer (okxClient (gate_state m v)) = answer (okxClient m)"
  using log_extends_instruments [OF refl, of "okxClient m" "render (symbol v)"]
  by (simp add: gate_state_def log_extends_def)





lemma rejected_buy:
  assumes v: "v = with_defaults (normalizedSignal sig)"
    and a: "action v = Val ''buy''"
    and cb: "\<not> fst (canBuy (database m) (render (coin v)) (category v) (subcategory v))"
  shows "\<not> success (fst (processSignal clk m sig))
     \<and> orders (okxClient (snd (processSignal clk m sig))) = orders (okxClient m)
     \<and> stop_orders (okxClient (snd (processSignal clk m sig))) = stop_orders (okxClient m)
     \<and> hashes (database (snd (processSignal clk m sig))) = hashes (database m)
     \<and> strings (database (snd (processSignal clk m sig))) = strings (database m)
     \<and> cooldowns (snd (processSignal clk m sig)) = cooldowns m
     \<and> dailyTrades (snd (processSignal clk m sig)) = dailyTrades m"
proof -
  obtain rs where rs: "snd (validateSymbol (okxClient m) (render (symbol v))) = (okxClient m)\<lparr> sent := sent (okxClient m) @ rs \<rparr>"
     "\<forall>r \<in> set rs. path r = ''/api/v5/public/instruments''"
    using validateSymbol_sent by blast
  note o = orders_instruments [OF rs(2), of "okxClient m"]
  note c1 = canBuy_contents [of "database m" "render (coin v)" "category v" "subcategory v"]
  note c2 = canSell_contents [of "snd (canBuy (database m) (render (coin v)) (category v) (subcategory v))" "render (coin v)" "category v" "subcategory v"]
  show ?thesis
    using a cb rs(1) o c1 c2 unfolding processSignal_def Let_def v [symmetric]
    by (auto split: prod.splits)
qed

lemma rejected_sell:
  assumes v: "v = with_defaults (normalizedSignal sig)"
    and a: "action v = Val ''sell''"
    and cs: "\<not> fst (canSell (snd (canBuy (database m) (render (coin v)) (category v) (subcategory v)))
                       (render (coin v)) (category v) (subcategory v))"
  shows "\<not> success (fst (processSignal clk m sig))
     \<and> orders (okxClient (snd (processSignal clk m sig))) = orders (okxClient m)
     \<and> stop_orders (okxClient (snd (processSignal clk m sig))) = stop_orders (okxClient m)
     \<and> hashes (database (snd (processSignal clk m sig))) = hashes (database m)
     \<and> strings (database (snd (processSignal clk m sig))) = strings (database m)
     \<and> cooldowns (snd (processSignal clk m sig)) = cooldowns m
     \<and> dailyTrades (snd (processSignal clk m sig)) = dailyTrades m"
proof -
  have le: "log_extends (okxClient m) (snd (validateSymbol (okxClient m) (render (symbol v)))) []"
    by (rule log_extends_instruments) simp
  note c1 = canBuy_contents [of "database m" "render (coin v)" "category v" "subcategory v"]
  note c2 = canSell_contents [of "snd (canBuy (database m) (render (coin v)) (category v) (subcategory v))" "render (coin v)" "category v" "subcategory v"]
  show ?thesis
    using a cs le c1 c2 unfolding processSignal_eq Let_def v [symmetric]
    by (simp add: log_extends_def)
qed


lemma accepted_goes_on:
  assumes v: "v = with_defaults (normalizedSignal sig)"
    and ot: "orderType v \<in> {Val ''market'', Val ''limit''}"
    and sy: "str_truthy (symbol v)" and co: "str_truthy (coin v)"
    and vs: "fst (validateSymbol (okxClient m) (render (symbol v)))"
    and el: "action v = Val ''buy'' \<and> fst (canBuy (database m) (render (coin v)) (category v) (subcategory v))
           \<or> action v = Val ''sell''
             \<and> fst (canSell (snd (canBuy (database m) (render (coin v)) (category v) (subcategory v)))
                      (render (coin v)) (category v) (subcategory v))"
  shows "processSignal clk m sig
           = executeSignal clk (gate_state m v) v (render (action v)) (render (symbol v)) (render (coin v))"
  using ot sy co vs el unfolding processSignal_eq Let_def v [symmetric]
  by (auto simp: gate_state_def)

lemma canBuy_position:
  "fst (canBuy db k cat sub)
     = (\<forall>p. fst (getBuyPosition db k cat sub) = Some p \<longrightarrow> p_status p \<noteq> ''active'')"
  by (simp add: canBuy_def case_prod_beta split: option.splits)

lemma canSell_position:
  "fst (canSell db k cat sub)
     = (\<exists>p. fst (getBuyPosition db k cat sub) = Some p \<and> p_status p = ''active''
            \<and> jgreater (p_quantity p) (Num 0))"
  by (simp add: canSell_def case_prod_beta split: option.splits)

lemma getBuyPosition_answered:
  "\<not> fst (command db) \<Longrightarrow>
   fst (getBuyPosition db k cat sub)
     = map_option (read_position (getStrategyKey k cat sub))
         (hashes db (''buy:'' @ getStrategyKey k cat sub))"
  using command_contents [of db]
  by (simp add: getBuyPosition_def Let_def case_prod_beta split: option.splits)


lemma quantity_mode_iff:
  "(recurringMode (with_defaults (normalizedSignal sig)) = Val ''qu'')
     = (normalize_value (recurringMode sig) = Val ''qu'')"
  by (auto simp: with_defaults_def normalizedSignal_def Let_def)

lemma placeOrderWithSLTP_kept:
  assumes "order_result (answer ex (Req ''POST'' ''/api/v5/trade/order'' None
                                     (Some (market_body symb side amt)))) = Some mainOrder"
    and "ticker_result (answer ex (ticker_req symb)) = None
         \<or> (\<forall>r. path r = ''/api/v5/trade/order-algo'' \<longrightarrow> answer ex r \<noteq> Throws)"
  shows "fst (placeOrderWithSLTP ex symb side amt stopLoss takeProfit) = Some mainOrder"
  using assms
  by (auto simp: placeOrderWithSLTP_def placeMarketOrder_eq getTicker_eq2 request_def Let_def
           split: option.splits reply.splits)

lemma isFirstTrade_unanswered:
  "\<not> answered db 2 \<Longrightarrow> fst (isFirstTrade db c cat sub)"
  by (cases "outages db"; cases "tl (outages db)")
     (auto simp: isFirstTrade_def command_def answered_def Let_def split: if_splits)

lemma canBuy_canSell_failed:
  "fst (command db) \<Longrightarrow> fst (canBuy db k cat sub) \<and> \<not> fst (canSell db k cat sub)"
  using failed_reads [of db k cat sub] by simp

subsection \<open>Lemmas on failing commands and on the books\<close>

lemma command_throws:
  "fst (command db) = throws_at db 0"
  "throws_at (snd (command db)) n = throws_at db (Suc n)"
  by (auto simp: command_def throws_at_def split: list.splits)

lemma isFirstTrade_contents:
  "hashes (snd (isFirstTrade db c cat sub)) = hashes db
   \<and> strings (snd (isFirstTrade db c cat sub)) = strings db"
  using command_contents [of db] command_contents [of "snd (command db)"]
  by (simp add: isFirstTrade_def Let_def case_prod_beta)

lemma getTradingBalance_contents:
  "hashes (snd (getTradingBalance db c cat sub)) = hashes db
   \<and> strings (snd (getTradingBalance db c cat sub)) = strings db"
  using command_contents [of db]
  by (simp add: getTradingBalance_def Let_def case_prod_beta split: option.splits)

lemma sizeBuy_contents:
  "hashes (snd (sizeBuy db bal v c)) = hashes db \<and> strings (snd (sizeBuy db bal v c)) = strings db"
  using isFirstTrade_contents [of db c "category v" "subcategory v"]
    getTradingBalance_contents [of "snd (isFirstTrade db c (category v) (subcategory v))" c
      "category v" "subcategory v"]
  by (simp add: sizeBuy_def Let_def case_prod_beta split: option.splits)

lemma sizeSell_contents:
  "hashes (snd (sizeSell db v c)) = hashes db \<and> strings (snd (sizeSell db v c)) = strings db"
  using getBuyPosition_contents [of db c "category v" "subcategory v"]
    isFirstTrade_contents [of "snd (getBuyPosition db c (category v) (subcategory v))" c
      "category v" "subcategory v"]
  by (simp add: sizeSell_def Let_def case_prod_beta split: option.splits)

lemma books_ledger_contents:
  "hashes (books_ledger m v) = hashes (database m) \<and> strings (books_ledger m v) = strings (database m)"
proof -
  let ?c = "render (coin v)"
  let ?d1 = "snd (canBuy (database m) ?c (category v) (subcategory v))"
  let ?d2 = "snd (canSell ?d1 ?c (category v) (subcategory v))"
  have g: "database (gate_state m v) = ?d2" by (simp add: gate_state_def)
  have c2: "hashes ?d2 = hashes (database m) \<and> strings ?d2 = strings (database m)"
    using canBuy_contents [of "database m" ?c "category v" "subcategory v"]
      canSell_contents [of ?d1 ?c "category v" "subcategory v"] by simp
  show ?thesis
    unfolding books_ledger_def sizing_def g
    using c2 sizeBuy_contents [of ?d2 _ v ?c] sizeSell_contents [of ?d2 v ?c]
    by simp
qed

lemma executed_books:
  assumes v: "v = with_defaults (normalizedSignal sig)"
    and ok: "success (fst (processSignal clk m sig))"
  shows "\<exists>m4 ps ta ord.
       database m4 = books_ledger m v \<and> answer (okxClient m4) = answer (okxClient m)
     \<and> fst (sizing (gate_state m v) v (render (action v)) (render (coin v))) = Inr (ps, ta)
     \<and> (action v = Val ''buy'' \<or> action v = Val ''sell'')
     \<and> snd (processSignal clk m sig)
         = (if action v = Val ''buy''
            then recordBuy clk m4 v (render (symbol v)) (render (coin v)) ord ta
            else recordSell m4 v (render (symbol v)) (render (coin v)) ps)"
proof -
  let ?g = "gate_state m v"
  let ?act = "render (action v)"
  let ?symb = "render (symbol v)"
  let ?c = "render (coin v)"
  have act: "action v = Val ''buy'' \<or> action v = Val ''sell''"
    using ok unfolding processSignal_eq Let_def v [symmetric]
    by (auto split: if_splits)
  have ex: "processSignal clk m sig = executeSignal clk ?g v ?act ?symb ?c"
    using ok unfolding processSignal_eq Let_def v [symmetric]
    by (auto simp: gate_state_def split: if_splits)
  have b: "(?act = ''buy'') = (action v = Val ''buy'')"
    using act by auto
  from ok have ok': "success (fst (executeSignal clk ?g v ?act ?symb ?c))"
    unfolding ex .
  have nc: "\<not> isInCooldown ?g clk ?symb ?act (subcategory v)"
    using ok' unfolding executeSignal_eq by (auto split: if_splits)
  have dl: "fst (checkDailyLimit ?g clk)"
    using ok' nc unfolding executeSignal_eq by (auto split: if_splits)
  obtain ps ta where sz: "fst (sizing ?g v ?act ?c) = Inr (ps, ta)"
    using ok' nc dl unfolding executeSignal_eq
    by (cases "fst (sizing ?g v ?act ?c)") (auto simp: Let_def)
  obtain ord where ord: "order_result (answer (okxClient ?g) (order_req v ?symb ?act ps)) = Some ord"
    using ok' nc dl sz unfolding executeSignal_eq
    by (cases "order_result (answer (okxClient ?g) (order_req v ?symb ?act ps))")
       (auto simp: Let_def)
  let ?ex1 = "(okxClient ?g)\<lparr> sent := sent (okxClient ?g) @ [balance_req] \<rparr>"
  let ?m4 = "setCooldown
      ((snd (checkDailyLimit ?g clk))\<lparr> okxClient := ?ex1, database := snd (sizing ?g v ?act ?c) \<rparr>
         \<lparr> okxClient := ?ex1\<lparr> sent := sent ?ex1 @ [order_req v ?symb ?act ps] \<rparr> \<rparr>)
      clk ?symb ?act (subcategory v)"
  have r: "snd (processSignal clk m sig)
         = (if action v = Val ''buy'' then recordBuy clk ?m4 v ?symb ?c ord ta
            else recordSell ?m4 v ?symb ?c ps)"
    unfolding ex executeSignal_eq using nc dl sz ord b by (simp add: Let_def)
  have d: "database ?m4 = books_ledger m v"
    by (simp add: setCooldown_def books_ledger_def)
  have a: "answer (okxClient ?m4) = answer (okxClient m)"
    by (simp add: setCooldown_def gate_state_answer)
  from d a sz act r show ?thesis by blast
qed

lemma db_recordSell_qu:
  "recurringMode v = Val ''qu'' \<Longrightarrow>
   database (recordSell m v symb c ps)
     = snd (clearBuyPosition
              (case getBuyPosition (database m) c (category v) (subcategory v) of
                 (Some p, db1) \<Rightarrow> snd (storeTradingBalance db1 c (category v) (subcategory v)
                                        (p_usdtSpent p))
               | (None, db1) \<Rightarrow> db1)
              c (category v) (subcategory v))"
  by (simp add: recordSell_def Let_def case_prod_beta split: option.splits prod.splits)

lemma qu_books:
  assumes pos: "hashes db (''buy:'' @ getStrategyKey c cat sub) = Some d"
    and db': "db' = snd (clearBuyPosition
              (case getBuyPosition db c cat sub of
                 (Some p, db1) \<Rightarrow> snd (storeTradingBalance db1 c cat sub (p_usdtSpent p))
               | (None, db1) \<Rightarrow> db1)
              c cat sub)"
  shows "strings db' = (if \<not> throws_at db 0 \<and> \<not> throws_at db 1
                        then (strings db)(''balance:'' @ getStrategyKey c cat sub \<mapsto> h_usdtSpent d)
                        else strings db)"
    and "hashes db' = (if throws_at db (if throws_at db 0 then 1 else 2) then hashes db
                       else (hashes db)(''buy:'' @ getStrategyKey c cat sub := None))"
  using pos unfolding db'
  by (auto simp: getBuyPosition_def storeTradingBalance_def clearBuyPosition_def command_def
        throws_at_def Let_def read_position_def split: list.splits)


lemma answered_throws: "answered db n \<Longrightarrow> i < n \<Longrightarrow> \<not> throws_at db i"
  by (auto simp: answered_def throws_at_def in_set_conv_nth)

lemma gate_reads:
  assumes "hashes db (''buy:'' @ getStrategyKey c cat sub) = Some d" and "h_status d = ''active''"
  shows "fst (canBuy db c cat sub) = throws_at db 0"
    and "fst (canSell db c cat sub)
           = (\<not> throws_at db 0 \<and> jgreater (parseFloat (h_quantity d)) (Num 0))"
  using assms command_contents [of db]
  by (auto simp: canBuy_def canSell_def getBuyPosition_def Let_def case_prod_beta read_position_def
        command_throws)

lemma hashes_recordBuy:
  "\<exists>d. hashes (database (recordBuy clk m v symb c ord ta))
          = (if throws_at (database m) 0 then hashes (database m)
             else (hashes (database m))(''buy:'' @ getStrategyKey c (category v) (subcategory v) \<mapsto> d))
     \<and> strings (database (recordBuy clk m v symb c ord ta)) = strings (database m)
     \<and> h_status d = ''active''
     \<and> h_price d = ToString (fallback_price (ticker_result (answer (okxClient m) (ticker_req symb))) v)
     \<and> h_quantity d = ToString
          (case truthy_num (initialQuantity v) of
             Some q \<Rightarrow> q
           | None \<Rightarrow> if jgreater (parseFloat (h_price d)) (Num 0)
                     then jdiv (parseFloat (h_usdtSpent d)) (parseFloat (h_price d)) else Num 0)"
proof -
  let ?px = "fallback_price (ticker_result (answer (okxClient m) (ticker_req symb))) v"
  let ?spent = "(case ta of Some a \<Rightarrow> a | None \<Rightarrow> NaN)"
  let ?d = "(case truthy_num (initialQuantity v) of
                 Some q \<Rightarrow> \<lparr> h_quantity = ToString q, h_price = ToString ?px,
                        h_usdtSpent = ToString (jmul q ?px), h_orderId = ordId ord,
                        h_timestamp = date_toISOString clk, h_status = ''active'', h_coin = c,
                        h_category = category v, h_subcategory = subcategory v \<rparr>
               | None \<Rightarrow> \<lparr> h_quantity = ToString (if jgreater ?px (Num 0) then jdiv ?spent ?px else Num 0),
                        h_price = ToString ?px,
                        h_usdtSpent = ToString ?spent, h_orderId = ordId ord,
                        h_timestamp = date_toISOString clk, h_status = ''active'', h_coin = c,
                        h_category = category v, h_subcategory = subcategory v \<rparr>)"
  show ?thesis
    using command_contents [of "database m"]
    by (intro exI [of _ ?d], cases "truthy_num (initialQuantity v)")
       (simp_all add: recordBuy_def storeBuyOrder_def Let_def case_prod_beta getTicker_eq2
          command_throws)
qed

lemma rejected_when:
  assumes v: "v = with_defaults (normalizedSignal sig)"
    and cb: "action v = Val ''buy'' \<longrightarrow>
               \<not> fst (canBuy (database m) (render (coin v)) (category v) (subcategory v))"
    and cs: "action v = Val ''sell'' \<longrightarrow>
               \<not> fst (canSell (snd (canBuy (database m) (render (coin v)) (category v) (subcategory v)))
                       (render (coin v)) (category v) (subcategory v))"
  shows "\<not> success (fst (processSignal clk m sig))
     \<and> orders (okxClient (snd (processSignal clk m sig))) = orders (okxClient m)"
proof -
  have le: "log_extends (okxClient m) (snd (validateSymbol (okxClient m) (render (symbol v)))) []"
    by (rule log_extends_instruments) simp
  show ?thesis
    using cb cs le unfolding processSignal_eq Let_def v [symmetric]
    by (auto simp: log_extends_def)
qed










lemma market_order_sent:
  assumes v: "v = with_defaults (normalizedSignal sig)"
    and np: "\<not> numjs_truthy (price sig)"
    and ok: "success (fst (processSignal clk m sig))"
  shows "\<exists>ps. orders (okxClient (snd (processSignal clk m sig)))
           = orders (okxClient m)
             @ [Req ''POST'' ''/api/v5/trade/order'' None
                  (Some (market_body (render (symbol v)) (render (action v)) ps))]"
proof -
  have tn: "truthy_num (price v) = None"
    using np unfolding v by (simp add: with_defaults_def normalizedSignal_def Let_def or_null_def)
  from processSignal_log [OF v, of m clk] ok
  obtain ps where "log_extends (okxClient m) (okxClient (snd (processSignal clk m sig)))
             [order_req v (render (symbol v)) (render (action v)) ps]"
    by auto
  then have "orders (okxClient (snd (processSignal clk m sig)))
           = orders (okxClient m)
             @ [Req ''POST'' ''/api/v5/trade/order'' None
                  (Some (market_body (render (symbol v)) (render (action v)) ps))]"
    using tn by (simp add: log_extends_def order_req_def)
  then show ?thesis ..
qed

subsection \<open>Request signing\<close>

text \<open>
  C6. For every request the \<open>OK-ACCESS-SIGN\<close> header is the base64 HMAC-SHA256, under the
  secret key, of timestamp, method, request path and body text concatenated in this order.
  The timestamp is the ISO string taken at the call, the one sent in \<open>OK-ACCESS-TIMESTAMP\<close>;
  the signed path is the path of the URL, with \<open>?\<close> and the query string when a \<open>GET\<close> has
  a non-empty one; the body text is the serialised body that is sent as \<open>data\<close>, and the
  empty string when the request has no body.
\<close>

theorem request_signature:
  "map_of (cfg_headers (fst (request_config pl c m p ps b))) ''OK-ACCESS-SIGN''
     = Some (hmac_sha256_base64 pl (secretKey c)
               (toISOString pl @ m @ snd (request_config pl c m p ps b)
                @ (case b of None \<Rightarrow> [] | Some bd \<Rightarrow> json_stringify pl bd)))
   \<and> map_of (cfg_headers (fst (request_config pl c m p ps b))) ''OK-ACCESS-TIMESTAMP''
     = Some (toISOString pl)
   \<and> cfg_url (fst (request_config pl c m p ps b)) = baseURL c @ snd (request_config pl c m p ps b)
   \<and> snd (request_config pl c m p ps b)
     = (case ps of
          None \<Rightarrow> p
        | Some q \<Rightarrow> if m = ''GET'' \<and> urlSearchParams pl q \<noteq> []
                    then p @ ''?'' @ urlSearchParams pl q else p)
   \<and> cfg_data (fst (request_config pl c m p ps b)) = map_option (json_stringify pl) b
   \<and> cfg_method (fst (request_config pl c m p ps b)) = m"
  by (cases ps; cases b) (simp_all add: request_config_def sign_def Let_def)

theorem request_signature_witness:
  "map_of (cfg_headers (fst (request_config pl0 c0 ''GET'' ''/api/v5/market/ticker''
                               (Some [(''instId'', Str ''DOGE-USDT'')]) None))) ''OK-ACCESS-SIGN''
     = Some ''mac(s,2024-05-01T10:00:00.000ZGET/api/v5/market/ticker?instId=DOGE-USDT)''"
  using request_signature [of pl0 c0 "''GET''" "''/api/v5/market/ticker''"
                              "Some [(''instId'', Str ''DOGE-USDT'')]" None]
  by (simp add: pl0_def c0_def)

subsection \<open>Numeric fields of a text alert\<close>

text \<open>
  C10. For a text alert that \<open>parseMessage\<close> accepts, each of the numeric fields quantity,
  amount, price, initialAmount and initialQuantity of the parsed signal is fixed by the
  last line of the alert that carries its key: the field is missing when there is no such
  line, \<open>null\<close> when the value of that line does not parse as a number (\<open>NaN\<close>) or parses to
  0, and the parsed number otherwise; so no numeric field of a parsed alert is \<open>NaN\<close> or 0.
  An alert whose price line has such a value and that has no order type line gets the
  order type \<open>market\<close>. For every signal whose price is missing, \<open>null\<close>, \<open>NaN\<close> or 0 the
  price becomes \<open>null\<close> and the order goes out through \<open>placeMarketOrder\<close>, the order type
  is \<open>market\<close> when the signal names none, and when \<open>processSignal\<close> succeeds the one
  order request it has sent is a market order.
\<close>

theorem numeric_fields_null:
  assumes "parseMessage pf msg = Inr s"
    and "ls = filter (\<lambda>l. l \<noteq> []) (map trim (split CHR 0x0A msg))"
  shows "quantity s = (case last_value ''quantity'' ls of None \<Rightarrow> Undefined
                       | Some t \<Rightarrow> if pf t = NaN \<or> pf t = Num 0 then Null else Val (pf t))
     \<and> amount s = (case last_value ''amount'' ls of None \<Rightarrow> Undefined
                       | Some t \<Rightarrow> if pf t = NaN \<or> pf t = Num 0 then Null else Val (pf t))
     \<and> price s = (case last_value ''price'' ls of None \<Rightarrow> Undefined
                       | Some t \<Rightarrow> if pf t = NaN \<or> pf t = Num 0 then Null else Val (pf t))
     \<and> initialAmount s = (case last_value ''initialamount'' ls of None \<Rightarrow> Undefined
                       | Some t \<Rightarrow> if pf t = NaN \<or> pf t = Num 0 then Null else Val (pf t))
     \<and> initialQuantity s = (case last_value ''initialquantity'' ls of None \<Rightarrow> Undefined
                       | Some t \<Rightarrow> if pf t = NaN \<or> pf t = Num 0 then Null else Val (pf t))
     \<and> numbers_ok s
     \<and> (last_value ''price'' ls = Some t \<and> (pf t = NaN \<or> pf t = Num 0)
          \<and> last_value ''ordertype'' ls = None \<longrightarrow>
            price s = Null
          \<and> orderType (with_defaults (normalizedSignal s)) = Val ''market''
          \<and> price (with_defaults (normalizedSignal s)) = Null
          \<and> submitOrder ex (with_defaults (normalizedSignal s)) symb act ps
              = placeMarketOrder ex symb act ps)
     \<and> (\<not> numjs_truthy (price sig) \<longrightarrow>
            price (with_defaults (normalizedSignal sig)) = Null
          \<and> submitOrder ex (with_defaults (normalizedSignal sig)) symb act ps
              = placeMarketOrder ex symb act ps
          \<and> (\<not> str_truthy (normalize_value (orderType sig)) \<longrightarrow>
                orderType (with_defaults (normalizedSignal sig)) = Val ''market'')
          \<and> (success (fst (processSignal clk m sig)) \<longrightarrow>
                (\<exists>size. orders (okxClient (snd (processSignal clk m sig)))
                   = orders (okxClient m)
                     @ [Req ''POST'' ''/api/v5/trade/order'' None
                          (Some (market_body (render (symbol (with_defaults (normalizedSignal sig))))
                                   (render (action (with_defaults (normalizedSignal sig)))) size))])))"
proof -
  have ls: "ls = message_lines msg"
    using assms(2) by (simp add: message_lines_def)
  have s: "s = foldl (parseLine pf) empty_signal ls"
    unfolding ls using assms(1) by (rule parseMessage_Inr)
  have e: "quantity empty_signal = Undefined" "amount empty_signal = Undefined"
      "price empty_signal = Undefined" "initialAmount empty_signal = Undefined"
      "initialQuantity empty_signal = Undefined" "orderType empty_signal = Undefined"
    by (simp_all add: empty_signal_def)
  have a1: "quantity s = (case last_value ''quantity'' ls of None \<Rightarrow> Undefined
                       | Some t \<Rightarrow> if pf t = NaN \<or> pf t = Num 0 then Null else Val (pf t))"
    unfolding s
    by (simp add: foldl_last_value [where f = quantity and g = "\<lambda>t. number_or_null (pf t)" and pf = pf, OF parseLine_fields(1)] e(1)
          number_or_null_cases split: option.splits)
  have a2: "amount s = (case last_value ''amount'' ls of None \<Rightarrow> Undefined
                       | Some t \<Rightarrow> if pf t = NaN \<or> pf t = Num 0 then Null else Val (pf t))"
    unfolding s
    by (simp add: foldl_last_value [where f = amount and g = "\<lambda>t. number_or_null (pf t)" and pf = pf, OF parseLine_fields(2)] e(2)
          number_or_null_cases split: option.splits)
  have a3: "price s = (case last_value ''price'' ls of None \<Rightarrow> Undefined
                       | Some t \<Rightarrow> if pf t = NaN \<or> pf t = Num 0 then Null else Val (pf t))"
    unfolding s
    by (simp add: foldl_last_value [where f = price and g = "\<lambda>t. number_or_null (pf t)" and pf = pf, OF parseLine_fields(3)] e(3)
          number_or_null_cases split: option.splits)
  have a4: "initialAmount s = (case last_value ''initialamount'' ls of None \<Rightarrow> Undefined
                       | Some t \<Rightarrow> if pf t = NaN \<or> pf t = Num 0 then Null else Val (pf t))"
    unfolding s
    by (simp add: foldl_last_value [where f = initialAmount and g = "\<lambda>t. number_or_null (pf t)" and pf = pf, OF parseLine_fields(4)] e(4)
          number_or_null_cases split: option.splits)
  have a5: "initialQuantity s = (case last_value ''initialquantity'' ls of None \<Rightarrow> Undefined
                       | Some t \<Rightarrow> if pf t = NaN \<or> pf t = Num 0 then Null else Val (pf t))"
    unfolding s
    by (simp add: foldl_last_value [where f = initialQuantity and g = "\<lambda>t. number_or_null (pf t)" and pf = pf, OF parseLine_fields(5)] e(5)
          number_or_null_cases split: option.splits)
  have ot: "orderType s = (case last_value ''ordertype'' ls of None \<Rightarrow> Undefined
                       | Some t \<Rightarrow> Val (toLowerCase t))"
    unfolding s
    by (simp add: foldl_last_value [where f = orderType and g = "\<lambda>t. Val (toLowerCase t)" and pf = pf, OF parseLine_fields(6)] e(6)
          split: option.splits)
  have whole: "numbers_ok s"
    using assms(1) by (rule parseMessage_numbers_ok)
  have tn: "\<And>x. \<not> numjs_truthy (price x) \<Longrightarrow>
        truthy_num (price (with_defaults (normalizedSignal x))) = None"
    by (simp add: with_defaults_def normalizedSignal_def Let_def or_null_def)
  have pn: "\<And>x. \<not> numjs_truthy (price x) \<Longrightarrow> price (with_defaults (normalizedSignal x)) = Null"
    by (simp add: with_defaults_def normalizedSignal_def Let_def or_null_def)
  have alert: "last_value ''price'' ls = Some t \<and> (pf t = NaN \<or> pf t = Num 0)
          \<and> last_value ''ordertype'' ls = None \<longrightarrow>
            price s = Null
          \<and> orderType (with_defaults (normalizedSignal s)) = Val ''market''
          \<and> price (with_defaults (normalizedSignal s)) = Null
          \<and> submitOrder ex (with_defaults (normalizedSignal s)) symb act ps
              = placeMarketOrder ex symb act ps"
  proof
    assume h: "last_value ''price'' ls = Some t \<and> (pf t = NaN \<or> pf t = Num 0)
          \<and> last_value ''ordertype'' ls = None"
    with a3 have p: "price s = Null" by simp
    from h ot have o: "orderType s = Undefined" by simp
    from p have np: "\<not> numjs_truthy (price s)" by simp
    from o have no: "\<not> str_truthy (normalize_value (orderType s))"
      by (simp add: normalize_value_def)
    from p market_default [OF np no] submit_market [OF tn [OF np]]
    show "price s = Null
          \<and> orderType (with_defaults (normalizedSignal s)) = Val ''market''
          \<and> price (with_defaults (normalizedSignal s)) = Null
          \<and> submitOrder ex (with_defaults (normalizedSignal s)) symb act ps
              = placeMarketOrder ex symb act ps"
      by simp
  qed
  have dflt: "\<not> numjs_truthy (price sig) \<longrightarrow>
            price (with_defaults (normalizedSignal sig)) = Null
          \<and> submitOrder ex (with_defaults (normalizedSignal sig)) symb act ps
              = placeMarketOrder ex symb act ps
          \<and> (\<not> str_truthy (normalize_value (orderType sig)) \<longrightarrow>
                orderType (with_defaults (normalizedSignal sig)) = Val ''market'')
          \<and> (success (fst (processSignal clk m sig)) \<longrightarrow>
                (\<exists>size. orders (okxClient (snd (processSignal clk m sig)))
                   = orders (okxClient m)
                     @ [Req ''POST'' ''/api/v5/trade/order'' None
                          (Some (market_body (render (symbol (with_defaults (normalizedSignal sig))))
                                   (render (action (with_defaults (normalizedSignal sig)))) size))]))"
    using market_default [of sig] submit_market [OF tn [of sig]] pn [of sig]
      market_order_sent [OF refl, of sig clk m]
    by simp
  show ?thesis
    by (intro conjI) (fact a1 a2 a3 a4 a5 whole alert dflt)+
qed

theorem numeric_fields_null_witness:
  "(\<exists>s. parseMessage pf0 alert0 = Inr s
      \<and> last_value ''price'' (message_lines alert0) = Some ''0'' \<and> pf0 ''0'' = Num 0
      \<and> price s = Null
      \<and> last_value ''amount'' (message_lines alert0) = Some ''abc'' \<and> pf0 ''abc'' = NaN
      \<and> amount s = Null
      \<and> initialAmount s = Val (Num (1 / 2))
      \<and> quantity s = Undefined
      \<and> orderType (with_defaults (normalizedSignal s)) = Val ''market''
      \<and> success (fst (processSignal clk0 (manager0 (ans0 (Num 2)) (db_empty [])) s))
      \<and> orders (okxClient (snd (processSignal clk0 (manager0 (ans0 (Num 2)) (db_empty [])) s)))
          = [Req ''POST'' ''/api/v5/trade/order'' None
               (Some (market_body ''DOGE-USDT'' ''buy'' (ToString (Num (1 / 2)))))])"
proof -
  let ?s = "\<lparr> action = Val ''buy'', symbol = Val ''DOGE-USDT'', coin = Val ''DOGE'',
        category = Val ''momentum'', subcategory = Val ''1m'',
        quantity = Undefined, amount = Null, recurringMode = Undefined,
        orderType = Undefined, price = Null,
        initialAmount = Val (Num (1 / 2)), initialQuantity = Undefined \<rparr>"
  let ?ls = "filter (\<lambda>l. l \<noteq> []) (map trim (split CHR 0x0A alert0))"
  let ?m = "manager0 (ans0 (Num 2)) (db_empty [])"
  have r: "parseMessage pf0 alert0 = Inr ?s" by code_simp
  have m: "message_lines alert0 = ?ls" by (simp add: message_lines_def)
  have lp: "last_value ''price'' ?ls = Some ''0''" by code_simp
  have la: "last_value ''amount'' ?ls = Some ''abc''" by code_simp
  have li: "last_value ''initialamount'' ?ls = Some ''0.5''" by code_simp
  have lq: "last_value ''quantity'' ?ls = None" by code_simp
  have lo: "last_value ''ordertype'' ?ls = None" by code_simp
  have p0: "pf0 ''0'' = Num 0" "pf0 ''abc'' = NaN" "pf0 ''0.5'' = Num (1 / 2)"
    by (simp_all add: pf0_def)
  have ok: "success (fst (processSignal clk0 ?m ?s))" by code_simp
  have os: "orders (okxClient (snd (processSignal clk0 ?m ?s)))
          = [Req ''POST'' ''/api/v5/trade/order'' None
               (Some (market_body ''DOGE-USDT'' ''buy'' (ToString (Num (1 / 2)))))]"
    by code_simp
  note t = numeric_fields_null [OF r refl, where t = "''0''" and sig = ?s and clk = clk0 and m = ?m]
  from t lp la li lq lo p0 m
  have f: "price ?s = Null \<and> amount ?s = Null \<and> initialAmount ?s = Val (Num (1 / 2))
      \<and> quantity ?s = Undefined \<and> orderType (with_defaults (normalizedSignal ?s)) = Val ''market''"
    by simp
  from r lp la p0 m f ok os show ?thesis
    by (intro exI [of _ ?s]) simp
qed

subsection \<open>Instrument validation\<close>

text \<open>
  C7, as the claim states it, fails: when the request for the symbol as given throws,
  \<open>validateSymbol\<close> returns false at once, although the exchange would report the
  instrument under the variant without separator (and under the two others).
\<close>

theorem validateSymbol_throw_counterexample:
  "\<not> (fst (validateSymbol (exchange ans_first_throws) ''SOL-USDT'')
       = (exchange_reports (exchange ans_first_throws) ''SOL-USDT'' = Some True
          \<or> exchange_reports (exchange ans_first_throws) ''SOLUSDT'' = Some True
          \<or> exchange_reports (exchange ans_first_throws) ''SOL_USDT'' = Some True
          \<or> exchange_reports (exchange ans_first_throws) ''SOL-USD'' = Some True))"
  by (simp add: validateSymbol_def request_def exchange_def ans_first_throws_def
        exchange_reports_def instruments_params_def instrument_found_def)

text \<open>
  C7, amended. \<open>validateSymbol\<close> asks for the symbol as given and then, in this order, for
  the symbol with its first \<open>-\<close> removed, with its first \<open>-\<close> replaced by \<open>_\<close>, and with its
  first \<open>-USDT\<close> replaced by \<open>-USD\<close>, leaving out a variant equal to the symbol. It returns
  true iff the exchange reports an instrument for one of these and has answered each
  earlier one with none; a request that throws ends the search with false. When no request
  throws, it returns true iff the exchange reports an instrument for one of them, and false
  only after all have missed.
\<close>

theorem validateSymbol_in_turn:
  "fst (validateSymbol ex symb)
     = (\<exists>ys v zs. candidates symb = ys @ v # zs \<and> exchange_reports ex v = Some True
                  \<and> (\<forall>y \<in> set ys. exchange_reports ex y = Some False))
   \<and> ((\<forall>c \<in> set (candidates symb). exchange_reports ex c \<noteq> None) \<longrightarrow>
         fst (validateSymbol ex symb)
           = (\<exists>c \<in> set (candidates symb). exchange_reports ex c = Some True))
   \<and> (exchange_reports ex symb = None \<longrightarrow> \<not> fst (validateSymbol ex symb))
   \<and> candidates symb
       = symb # filter (\<lambda>alt. alt \<noteq> symb)
                  [replace ''-'' [] symb, replace ''-'' ''_'' symb, replace ''-USDT'' ''-USD'' symb]"
proof -
  have a: "fst (validateSymbol ex symb) = found_in_turn ex (candidates symb)"
    by (rule validateSymbol_found)
  have b: "(\<forall>c \<in> set (candidates symb). exchange_reports ex c \<noteq> None) \<longrightarrow>
         fst (validateSymbol ex symb)
           = (\<exists>c \<in> set (candidates symb). exchange_reports ex c = Some True)"
    using found_in_turn_no_throw [of "candidates symb" ex] a by simp
  have c: "exchange_reports ex symb = None \<longrightarrow> \<not> fst (validateSymbol ex symb)"
    unfolding a by (simp add: candidates_def found_in_turn_Cons)
  have d: "candidates symb
       = symb # filter (\<lambda>alt. alt \<noteq> symb)
                  [replace ''-'' [] symb, replace ''-'' ''_'' symb, replace ''-USDT'' ''-USD'' symb]"
    by (simp add: candidates_def alternatives_def)
  from a b c d show ?thesis unfolding found_in_turn_def by blast
qed

theorem validateSymbol_in_turn_witness:
  "candidates ''SOL-USDT'' = [''SOL-USDT'', ''SOLUSDT'', ''SOL_USDT'', ''SOL-USD'']
   \<and> exchange_reports (exchange ans_underscore) ''SOL-USD'' = Some False
   \<and> exchange_reports (exchange ans_underscore) ''SOL-USDT'' = Some False
   \<and> exchange_reports (exchange ans_underscore) ''SOLUSDT'' = Some False
   \<and> exchange_reports (exchange ans_underscore) ''SOL_USDT'' = Some True
   \<and> fst (validateSymbol (exchange ans_underscore) ''SOL-USDT'')"
proof -
  have cs: "candidates ''SOL-USDT'' = [''SOL-USDT'', ''SOLUSDT'', ''SOL_USDT'', ''SOL-USD'']"
    by (simp add: candidates_def alternatives_def)
  have r: "exchange_reports (exchange ans_underscore) ''SOL-USDT'' = Some False"
      "exchange_reports (exchange ans_underscore) ''SOLUSDT'' = Some False"
      "exchange_reports (exchange ans_underscore) ''SOL_USDT'' = Some True"
      "exchange_reports (exchange ans_underscore) ''SOL-USD'' = Some False"
    by (simp_all add: exchange_reports_def exchange_def ans_underscore_def instruments_params_def
          instrument_found_def)
  have h: "\<forall>c \<in> set (candidates ''SOL-USDT''). exchange_reports (exchange ans_underscore) c \<noteq> None"
    unfolding cs using r by auto
  have e: "\<exists>c \<in> set (candidates ''SOL-USDT''). exchange_reports (exchange ans_underscore) c = Some True"
    unfolding cs using r by auto
  from validateSymbol_in_turn [of "exchange ans_underscore" "''SOL-USDT''"] h e
  have "fst (validateSymbol (exchange ans_underscore) ''SOL-USDT'')" by blast
  with cs r show ?thesis by simp
qed

subsection \<open>First trade\<close>

text \<open>
  C5, as the claim states it, fails. \<open>storeBuyOrder\<close> has written the position of the
  strategy (it returns true and the record is stored), and the check that follows at once
  returns true, because the store fails on its read.
\<close>

theorem first_trade_outage_counterexample:
  "fst (storeBuyOrder (db_empty [False, True]) ''DOGE'' (Val ''momentum'') (Val ''1m'') (Num 1250)
          (Num (2 / 25)) (Num 100) (Val ''76'') ''2023-11-14T20:00:00.000Z'')
   \<and> hashes (snd (storeBuyOrder (db_empty [False, True]) ''DOGE'' (Val ''momentum'') (Val ''1m'')
                     (Num 1250) (Num (2 / 25)) (Num 100) (Val ''76'') ''2023-11-14T20:00:00.000Z''))
        ''buy:DOGE:momentum:1m'' = Some (doge_position (Num 1250))
   \<and> fst (isFirstTrade
            (snd (storeBuyOrder (db_empty [False, True]) ''DOGE'' (Val ''momentum'') (Val ''1m'')
                    (Num 1250) (Num (2 / 25)) (Num 100) (Val ''76'') ''2023-11-14T20:00:00.000Z''))
            ''DOGE'' (Val ''momentum'') (Val ''1m''))"
  by (simp add: storeBuyOrder_def isFirstTrade_def command_def db_empty_def doge_position_def
        getStrategyKey_def Let_def)

text \<open>
  C5, amended. For every strategy key, \<open>isFirstTrade\<close> returns true while neither a
  position nor a balance is stored under the key. Right after \<open>storeBuyOrder\<close> or
  \<open>storeTradingBalance\<close> has written to the key (has returned true), it returns false when
  the store answers the two reads of the check, and true when one of them fails.
\<close>

theorem first_trade_round_trip:
  "(hashes db (''buy:'' @ getStrategyKey c cat sub) = None
      \<and> strings db (''balance:'' @ getStrategyKey c cat sub) = None
      \<longrightarrow> fst (isFirstTrade db c cat sub))
   \<and> (storeBuyOrder db c cat sub q px spent oid ts = (True, db1)
      \<longrightarrow> fst (isFirstTrade db1 c cat sub) = (\<not> answered db1 2))
   \<and> (storeTradingBalance db c cat sub a = (True, db2)
      \<longrightarrow> fst (isFirstTrade db2 c cat sub) = (\<not> answered db2 2))"
proof -
  have f: "hashes db (''buy:'' @ getStrategyKey c cat sub) = None
      \<and> strings db (''balance:'' @ getStrategyKey c cat sub) = None
      \<longrightarrow> fst (isFirstTrade db c cat sub)"
    using isFirstTrade_fresh [of db c cat sub] by simp
  have b: "storeBuyOrder db c cat sub q px spent oid ts = (True, db1)
      \<longrightarrow> fst (isFirstTrade db1 c cat sub) = (\<not> answered db1 2)"
    using isFirstTrade_after_buy [of db c cat sub q px spent oid ts db1]
      isFirstTrade_unanswered [of db1 c cat sub] by auto
  have s: "storeTradingBalance db c cat sub a = (True, db2)
      \<longrightarrow> fst (isFirstTrade db2 c cat sub) = (\<not> answered db2 2)"
    using isFirstTrade_after_balance [of db c cat sub a db2]
      isFirstTrade_unanswered [of db2 c cat sub] by auto
  show ?thesis
    by (intro conjI) (fact f b s)+
qed

theorem first_trade_round_trip_witness:
  "fst (isFirstTrade (db_empty []) ''DOGE'' (Val ''momentum'') (Val ''1m''))
   \<and> fst (storeBuyOrder (db_empty []) ''DOGE'' (Val ''momentum'') (Val ''1m'') (Num 1250)
            (Num (2 / 25)) (Num 100) (Val ''77'') ''t'')
   \<and> answered (db_open (Num 1250) []) 2
   \<and> \<not> fst (isFirstTrade (db_open (Num 1250) []) ''DOGE'' (Val ''momentum'') (Val ''1m''))
   \<and> fst (storeTradingBalance (db_empty []) ''DOGE'' (Val ''momentum'') (Val ''1m'') (Num 50))
   \<and> \<not> fst (isFirstTrade (db_balance []) ''DOGE'' (Val ''momentum'') (Val ''1m''))"
proof -
  have k: "getStrategyKey ''DOGE'' (Val ''momentum'') (Val ''1m'') = ''DOGE:momentum:1m''"
    by (simp add: getStrategyKey_def)
  have e: "hashes (db_empty []) (''buy:'' @ getStrategyKey ''DOGE'' (Val ''momentum'') (Val ''1m'')) = None
      \<and> strings (db_empty []) (''balance:'' @ getStrategyKey ''DOGE'' (Val ''momentum'') (Val ''1m'')) = None"
    by (simp add: db_empty_def)
  have b: "storeBuyOrder (db_empty []) ''DOGE'' (Val ''momentum'') (Val ''1m'') (Num 1250)
            (Num (2 / 25)) (Num 100) (Val ''76'') ''2023-11-14T20:00:00.000Z''
           = (True, db_open (Num 1250) [])"
    by (simp add: storeBuyOrder_def command_def db_empty_def db_open_def doge_position_def k Let_def)
  have b': "fst (storeBuyOrder (db_empty []) ''DOGE'' (Val ''momentum'') (Val ''1m'') (Num 1250)
            (Num (2 / 25)) (Num 100) (Val ''77'') ''t'')"
    by (simp add: storeBuyOrder_def command_def db_empty_def Let_def)
  have s: "storeTradingBalance (db_empty []) ''DOGE'' (Val ''momentum'') (Val ''1m'') (Num 50)
           = (True, db_balance [])"
    by (simp add: storeTradingBalance_def command_def db_empty_def db_balance_def k Let_def)
  have s': "fst (storeTradingBalance (db_empty []) ''DOGE'' (Val ''momentum'') (Val ''1m'') (Num 50))"
    unfolding s by simp
  have a1: "answered (db_open (Num 1250) []) 2" by (simp add: answered_def db_open_def)
  have a2: "answered (db_balance []) 2" by (simp add: answered_def db_balance_def)
  note t = first_trade_round_trip [of "db_empty []" "''DOGE''" "Val ''momentum''" "Val ''1m''"
      "Num 1250" "Num (2 / 25)" "Num 100" "Val ''76''" "''2023-11-14T20:00:00.000Z''"
      "db_open (Num 1250) []" "Num 50" "db_balance []"]
  from t e have f: "fst (isFirstTrade (db_empty []) ''DOGE'' (Val ''momentum'') (Val ''1m''))"
    by simp
  from t b a1 have n1: "\<not> fst (isFirstTrade (db_open (Num 1250) []) ''DOGE'' (Val ''momentum'') (Val ''1m''))"
    by simp
  from t s a2 have n2: "\<not> fst (isFirstTrade (db_balance []) ''DOGE'' (Val ''momentum'') (Val ''1m''))"
    by simp
  show ?thesis
    by (intro conjI) (fact f b' a1 n1 s' n2)+
qed

subsection \<open>Eligibility\<close>

text \<open>
  C1, as the claim states it, fails in its account of \<open>canBuy\<close> and \<open>canSell\<close>. The ledger
  holds an active position of 1250 DOGE for the strategy and the store fails on the read of
  it: \<open>canBuy\<close> is true and \<open>canSell\<close> false, and a buy signal for the strategy is accepted
  and its order submitted.
\<close>

theorem eligibility_outage_counterexample:
  "hashes (db_open (Num 1250) [True]) ''buy:DOGE:momentum:1m'' = Some (doge_position (Num 1250))
   \<and> h_status (doge_position (Num 1250)) = ''active''
   \<and> h_quantity (doge_position (Num 1250)) = ToString (Num 1250)
   \<and> fst (canBuy (db_open (Num 1250) [True]) ''DOGE'' (Val ''momentum'') (Val ''1m''))
   \<and> \<not> fst (canSell (db_open (Num 1250) [True]) ''DOGE'' (Val ''momentum'') (Val ''1m''))
   \<and> success (fst (processSignal clk0 (manager0 (ans0 (Num 2)) (db_open (Num 1250) [True]))
                     (doge_signal ''buy'')))
   \<and> length (orders (okxClient (snd (processSignal clk0
                (manager0 (ans0 (Num 2)) (db_open (Num 1250) [True])) (doge_signal ''buy''))))) = 1"
proof -
  have h: "hashes (db_open (Num 1250) [True]) ''buy:DOGE:momentum:1m'' = Some (doge_position (Num 1250))"
    by (simp add: db_open_def)
  have st: "h_status (doge_position (Num 1250)) = ''active''"
    by (simp add: doge_position_def)
  have q: "h_quantity (doge_position (Num 1250)) = ToString (Num 1250)"
    by (simp add: doge_position_def)
  have cb: "fst (canBuy (db_open (Num 1250) [True]) ''DOGE'' (Val ''momentum'') (Val ''1m''))"
    by code_simp
  have cs: "\<not> fst (canSell (db_open (Num 1250) [True]) ''DOGE'' (Val ''momentum'') (Val ''1m''))"
    by code_simp
  have ok: "success (fst (processSignal clk0 (manager0 (ans0 (Num 2)) (db_open (Num 1250) [True]))
                     (doge_signal ''buy'')))"
    by code_simp
  have n: "length (orders (okxClient (snd (processSignal clk0
                (manager0 (ans0 (Num 2)) (db_open (Num 1250) [True])) (doge_signal ''buy''))))) = 1"
    by code_simp
  show ?thesis
    by (intro conjI) (fact h st q cb cs ok n)+
qed

text \<open>
  C1, amended. With \<open>v\<close> the normalised signal: a buy for which \<open>canBuy\<close> did not hold, and
  a sell for which \<open>canSell\<close> did not hold (each evaluated on the ledger as \<open>processSignal\<close>
  finds it), end in a failure result, with no order request sent and the ledger, the
  cooldowns and the daily counter unchanged; a validated signal whose check holds goes on
  to the rest of \<open>processSignal\<close>. \<open>canBuy\<close> is true iff the ledger's position read gives no
  record with status \<open>'active'\<close>, and \<open>canSell\<close> is true iff it gives a record with status
  \<open>'active'\<close> and a quantity above 0. A read the store answers gives the record stored
  under the key; a read that fails gives none, so that \<open>canBuy\<close> is then true and \<open>canSell\<close>
  false whatever is stored.
\<close>

theorem eligibility_gate:
  assumes v: "v = with_defaults (normalizedSignal sig)"
    and c: "c = render (coin v)"
    and db1: "db1 = snd (canBuy (database m) c (category v) (subcategory v))"
    and m': "m' = snd (processSignal clk m sig)"
  shows "(action v = Val ''buy'' \<and> \<not> fst (canBuy (database m) c (category v) (subcategory v)) \<longrightarrow>
            \<not> success (fst (processSignal clk m sig)) \<and> orders (okxClient m') = orders (okxClient m)
          \<and> hashes (database m') = hashes (database m) \<and> strings (database m') = strings (database m)
          \<and> cooldowns m' = cooldowns m \<and> dailyTrades m' = dailyTrades m)
     \<and> (action v = Val ''sell'' \<and> \<not> fst (canSell db1 c (category v) (subcategory v)) \<longrightarrow>
            \<not> success (fst (processSignal clk m sig)) \<and> orders (okxClient m') = orders (okxClient m)
          \<and> hashes (database m') = hashes (database m) \<and> strings (database m') = strings (database m)
          \<and> cooldowns m' = cooldowns m \<and> dailyTrades m' = dailyTrades m)
     \<and> (orderType v \<in> {Val ''market'', Val ''limit''} \<and> str_truthy (symbol v) \<and> str_truthy (coin v)
          \<and> fst (validateSymbol (okxClient m) (render (symbol v)))
          \<and> (action v = Val ''buy'' \<and> fst (canBuy (database m) c (category v) (subcategory v))
              \<or> action v = Val ''sell'' \<and> fst (canSell db1 c (category v) (subcategory v)))
          \<longrightarrow> processSignal clk m sig
                = executeSignal clk (gate_state m v) v (render (action v)) (render (symbol v)) c)
     \<and> fst (canBuy db k cat sub)
         = (\<forall>p. fst (getBuyPosition db k cat sub) = Some p \<longrightarrow> p_status p \<noteq> ''active'')
     \<and> fst (canSell db k cat sub)
         = (\<exists>p. fst (getBuyPosition db k cat sub) = Some p \<and> p_status p = ''active''
                \<and> jgreater (p_quantity p) (Num 0))
     \<and> (\<not> fst (command db) \<longrightarrow>
           fst (getBuyPosition db k cat sub)
             = map_option (read_position (getStrategyKey k cat sub))
                 (hashes db (''buy:'' @ getStrategyKey k cat sub)))
     \<and> (fst (command db) \<longrightarrow> fst (canBuy db k cat sub) \<and> \<not> fst (canSell db k cat sub))"
proof -
  have b: "action v = Val ''buy'' \<and> \<not> fst (canBuy (database m) c (category v) (subcategory v)) \<longrightarrow>
            \<not> success (fst (processSignal clk m sig)) \<and> orders (okxClient m') = orders (okxClient m)
          \<and> hashes (database m') = hashes (database m) \<and> strings (database m') = strings (database m)
          \<and> cooldowns m' = cooldowns m \<and> dailyTrades m' = dailyTrades m"
    using rejected_buy [OF v, of m clk] unfolding c m' by simp
  have s: "action v = Val ''sell'' \<and> \<not> fst (canSell db1 c (category v) (subcategory v)) \<longrightarrow>
            \<not> success (fst (processSignal clk m sig)) \<and> orders (okxClient m') = orders (okxClient m)
          \<and> hashes (database m') = hashes (database m) \<and> strings (database m') = strings (database m)
          \<and> cooldowns m' = cooldowns m \<and> dailyTrades m' = dailyTrades m"
    using rejected_sell [OF v, of m clk] unfolding c m' db1 by simp
  have g: "orderType v \<in> {Val ''market'', Val ''limit''} \<and> str_truthy (symbol v) \<and> str_truthy (coin v)
          \<and> fst (validateSymbol (okxClient m) (render (symbol v)))
          \<and> (action v = Val ''buy'' \<and> fst (canBuy (database m) c (category v) (subcategory v))
              \<or> action v = Val ''sell'' \<and> fst (canSell db1 c (category v) (subcategory v)))
          \<longrightarrow> processSignal clk m sig
                = executeSignal clk (gate_state m v) v (render (action v)) (render (symbol v)) c"
    using accepted_goes_on [OF v, of m clk] unfolding c db1 by simp
  have r: "\<not> fst (command db) \<longrightarrow>
           fst (getBuyPosition db k cat sub)
             = map_option (read_position (getStrategyKey k cat sub))
                 (hashes db (''buy:'' @ getStrategyKey k cat sub))"
    using getBuyPosition_answered [of db k cat sub] by simp
  have f: "fst (command db) \<longrightarrow> fst (canBuy db k cat sub) \<and> \<not> fst (canSell db k cat sub)"
    using canBuy_canSell_failed [of db k cat sub] by simp
  show ?thesis
    by (intro conjI) (fact b s g r f canBuy_position canSell_position)+
qed

theorem eligibility_gate_witness:
  "action (with_defaults (normalizedSignal (doge_signal ''buy''))) = Val ''buy''
   \<and> \<not> fst (canBuy (db_open (Num 1250) []) ''DOGE'' (Val ''momentum'') (Val ''1m''))
   \<and> \<not> success (fst (processSignal clk0 (manager0 (ans0 (Num 2)) (db_open (Num 1250) []))
                        (doge_signal ''buy'')))
   \<and> orders (okxClient (snd (processSignal clk0 (manager0 (ans0 (Num 2)) (db_open (Num 1250) []))
                               (doge_signal ''buy'')))) = []
   \<and> \<not> fst (canSell (db_empty []) ''DOGE'' (Val ''momentum'') (Val ''1m''))
   \<and> \<not> success (fst (processSignal clk0 (manager0 (ans0 (Num 2)) (db_empty []))
                        (doge_signal ''sell'')))
   \<and> fst (canBuy (db_empty []) ''DOGE'' (Val ''momentum'') (Val ''1m''))
   \<and> processSignal clk0 (manager0 (ans0 (Num 2)) (db_empty [])) (doge_signal ''buy'')
       = executeSignal clk0
           (gate_state (manager0 (ans0 (Num 2)) (db_empty []))
              (with_defaults (normalizedSignal (doge_signal ''buy''))))
           (with_defaults (normalizedSignal (doge_signal ''buy''))) ''buy'' ''DOGE-USDT'' ''DOGE''"
proof -
  let ?v = "with_defaults (normalizedSignal (doge_signal ''buy''))"
  let ?w = "with_defaults (normalizedSignal (doge_signal ''sell''))"
  let ?m = "manager0 (ans0 (Num 2)) (db_open (Num 1250) [])"
  let ?e = "manager0 (ans0 (Num 2)) (db_empty [])"
  have a: "action ?v = Val ''buy''" by code_simp
  have k: "render (coin ?v) = ''DOGE''" "category ?v = Val ''momentum''" "subcategory ?v = Val ''1m''"
      "render (symbol ?v) = ''DOGE-USDT''" "render (action ?v) = ''buy''"
    by code_simp+
  have a': "action ?w = Val ''sell''" by code_simp
  have k': "render (coin ?w) = ''DOGE''" "category ?w = Val ''momentum''" "subcategory ?w = Val ''1m''"
    by code_simp+
  have d: "database ?m = db_open (Num 1250) []" "database ?e = db_empty []"
    by (simp_all add: manager0_def)
  have n: "\<not> fst (canBuy (db_open (Num 1250) []) ''DOGE'' (Val ''momentum'') (Val ''1m''))"
    by code_simp
  have o: "orders (okxClient ?m) = []" by (simp add: manager0_def exchange_def orders_def)
  note t = eligibility_gate [OF refl refl refl refl, of "doge_signal ''buy''" ?m clk0]
  from t a n have "\<not> success (fst (processSignal clk0 ?m (doge_signal ''buy'')))
      \<and> orders (okxClient (snd (processSignal clk0 ?m (doge_signal ''buy'')))) = orders (okxClient ?m)"
    unfolding k d by simp
  then have r1: "\<not> success (fst (processSignal clk0 ?m (doge_signal ''buy'')))"
      and r2: "orders (okxClient (snd (processSignal clk0 ?m (doge_signal ''buy'')))) = []"
    using o by simp_all
  have same: "snd (canBuy (db_empty []) ''DOGE'' (Val ''momentum'') (Val ''1m'')) = db_empty []"
    by (simp add: nf_canBuy_snd db_empty_def)
  have ns: "\<not> fst (canSell (db_empty []) ''DOGE'' (Val ''momentum'') (Val ''1m''))"
    by code_simp
  note t' = eligibility_gate [OF refl refl refl refl, of "doge_signal ''sell''" ?e clk0]
  from t' a' ns have r3: "\<not> success (fst (processSignal clk0 ?e (doge_signal ''sell'')))"
    unfolding k' d same by simp
  have cb: "fst (canBuy (db_empty []) ''DOGE'' (Val ''momentum'') (Val ''1m''))"
    by code_simp
  have ot: "orderType ?v = Val ''market''" by code_simp
  have sy: "str_truthy (symbol ?v)" "str_truthy (coin ?v)" by code_simp+
  have vs: "fst (validateSymbol (okxClient ?e) ''DOGE-USDT'')" by code_simp
  note t'' = eligibility_gate [OF refl refl refl refl, where sig = "doge_signal ''buy''" and m = ?e
      and clk = clk0 and db = "db_empty []" and k = "''DOGE''" and cat = "Val ''momentum''"
      and sub = "Val ''1m''"]
  from t'' a cb ot sy vs have r4: "processSignal clk0 ?e (doge_signal ''buy'')
       = executeSignal clk0 (gate_state ?e ?v) ?v ''buy'' ''DOGE-USDT'' ''DOGE''"
    unfolding k d by simp
  show ?thesis
    by (intro conjI) (fact a n r1 r2 ns r3 cb r4)+
qed

subsection \<open>Protective orders\<close>

text \<open>
  C2, as the claim states it, fails. A first buy on the standard path succeeds with one
  order request and no conditional order request sent: no protective order is attached.
  And in \<open>placeOrderWithSLTP\<close>, with the primary order acknowledged and the ticker known, a
  conditional order request that throws makes the result \<open>null\<close>.
\<close>

theorem protective_order_counterexample:
  "success (fst (processSignal clk0 (manager0 (ans0 (Num 2)) (db_empty [])) (doge_signal ''buy'')))
   \<and> length (orders (okxClient (snd (processSignal clk0 (manager0 (ans0 (Num 2)) (db_empty []))
                                       (doge_signal ''buy''))))) = 1
   \<and> stop_orders (okxClient (snd (processSignal clk0 (manager0 (ans0 (Num 2)) (db_empty []))
                                    (doge_signal ''buy'')))) = []
   \<and> fst (placeMarketOrder (exchange (ans0 (Num 2))) ''DOGE-USDT'' ''buy'' (ToString (Num 10)))
       = Some (OrderAck ''77'')
   \<and> fst (placeOrderWithSLTP (exchange (ans0 (Num 2))) ''DOGE-USDT'' ''buy'' (ToString (Num 10))
            STOP_LOSS_PERCENTAGE TAKE_PROFIT_PERCENTAGE) = None"
  by code_simp

text \<open>
  C2, amended. On the standard buy and sell path \<open>processSignal\<close> submits the primary order
  alone, through \<open>placeLimitOrder\<close> or \<open>placeMarketOrder\<close>: it sends at most one order
  request and no conditional order request, and its result is a success exactly when that
  order request was sent and acknowledged. \<open>placeOrderWithSLTP\<close>, which this path does not
  call, returns the primary order once it is placed whenever the ticker is unavailable or
  the exchange answers the conditional order request, whatever the code of the answer.
\<close>

theorem primary_order_alone:
  "stop_orders (okxClient (snd (processSignal clk m sig))) = stop_orders (okxClient m)
   \<and> (\<exists>os. orders (okxClient (snd (processSignal clk m sig))) = orders (okxClient m) @ os
            \<and> length os \<le> 1
            \<and> success (fst (processSignal clk m sig))
                = (\<exists>r. os = [r] \<and> order_result (answer (okxClient m) r) \<noteq> None))
   \<and> (order_result (answer ex (Req ''POST'' ''/api/v5/trade/order'' None
                                  (Some (market_body symb side amt)))) = Some mainOrder
        \<and> (ticker_result (answer ex (ticker_req symb)) = None
            \<or> (\<forall>r. path r = ''/api/v5/trade/order-algo'' \<longrightarrow> answer ex r \<noteq> Throws))
        \<longrightarrow> fst (placeOrderWithSLTP ex symb side amt stopLoss takeProfit) = Some mainOrder)"
proof -
  let ?P = "processSignal clk m sig"
  let ?v = "with_defaults (normalizedSignal sig)"
  note L = processSignal_log [OF refl, of m clk sig]
  have a: "stop_orders (okxClient (snd ?P)) = stop_orders (okxClient m)"
    using L by (auto simp: log_extends_def)
  have b: "\<exists>os. orders (okxClient (snd ?P)) = orders (okxClient m) @ os \<and> length os \<le> 1
            \<and> success (fst ?P) = (\<exists>r. os = [r] \<and> order_result (answer (okxClient m) r) \<noteq> None)"
    using L
  proof
    assume "log_extends (okxClient m) (okxClient (snd ?P)) [] \<and> \<not> success (fst ?P)"
    then have "orders (okxClient (snd ?P)) = orders (okxClient m) @ [] \<and> length ([] :: req list) \<le> 1
            \<and> success (fst ?P) = (\<exists>r. [] = [r] \<and> order_result (answer (okxClient m) r) \<noteq> None)"
      by (simp add: log_extends_def)
    then show ?thesis by (rule exI)
  next
    assume "\<exists>ps ta. fst (sizing (gate_state m ?v) ?v (render (action ?v)) (render (coin ?v))) = Inr (ps, ta)
        \<and> log_extends (okxClient m) (okxClient (snd ?P))
             [order_req ?v (render (symbol ?v)) (render (action ?v)) ps]
        \<and> success (fst ?P)
            = (order_result (answer (okxClient m)
                 (order_req ?v (render (symbol ?v)) (render (action ?v)) ps)) \<noteq> None)"
    then obtain ps where p: "log_extends (okxClient m) (okxClient (snd ?P))
             [order_req ?v (render (symbol ?v)) (render (action ?v)) ps]"
        "success (fst ?P)
            = (order_result (answer (okxClient m)
                 (order_req ?v (render (symbol ?v)) (render (action ?v)) ps)) \<noteq> None)"
      by auto
    let ?r = "order_req ?v (render (symbol ?v)) (render (action ?v)) ps"
    from p have "orders (okxClient (snd ?P)) = orders (okxClient m) @ [?r] \<and> length [?r] \<le> 1
            \<and> success (fst ?P) = (\<exists>r. [?r] = [r] \<and> order_result (answer (okxClient m) r) \<noteq> None)"
      by (simp add: log_extends_def)
    then show ?thesis by (rule exI)
  qed
  have c: "order_result (answer ex (Req ''POST'' ''/api/v5/trade/order'' None
                                  (Some (market_body symb side amt)))) = Some mainOrder
        \<and> (ticker_result (answer ex (ticker_req symb)) = None
            \<or> (\<forall>r. path r = ''/api/v5/trade/order-algo'' \<longrightarrow> answer ex r \<noteq> Throws))
        \<longrightarrow> fst (placeOrderWithSLTP ex symb side amt stopLoss takeProfit) = Some mainOrder"
    using placeOrderWithSLTP_kept [of ex symb side amt mainOrder stopLoss takeProfit] by simp
  show ?thesis
    by (intro conjI) (fact a b c)+
qed

theorem primary_order_alone_witness:
  "stop_orders (okxClient (snd (processSignal clk0 (manager0 (ans0 (Num 2)) (db_open (Num 1250) []))
                                 (doge_signal ''sell'')))) = []
   \<and> ticker_result (answer (exchange ans_no_ticker) (ticker_req ''DOGE-USDT'')) = None
   \<and> fst (placeOrderWithSLTP (exchange ans_no_ticker) ''DOGE-USDT'' ''buy'' (ToString (Num 10))
            STOP_LOSS_PERCENTAGE TAKE_PROFIT_PERCENTAGE) = Some (OrderAck ''77'')"
proof -
  let ?m = "manager0 (ans0 (Num 2)) (db_open (Num 1250) [])"
  have s: "stop_orders (okxClient ?m) = []"
    by (simp add: manager0_def exchange_def stop_orders_def)
  have o: "order_result (answer (exchange ans_no_ticker)
             (Req ''POST'' ''/api/v5/trade/order'' None
                (Some (market_body ''DOGE-USDT'' ''buy'' (ToString (Num 10)))))) = Some (OrderAck ''77'')"
    by code_simp
  have t: "ticker_result (answer (exchange ans_no_ticker) (ticker_req ''DOGE-USDT'')) = None"
    by code_simp
  note p = primary_order_alone [of clk0 ?m "doge_signal ''sell''" "exchange ans_no_ticker"
      "''DOGE-USDT''" "''buy''" "ToString (Num 10)" "OrderAck ''77''"
      STOP_LOSS_PERCENTAGE TAKE_PROFIT_PERCENTAGE]
  from p s o t show ?thesis by simp
qed

subsection \<open>Failed ledger reads\<close>





subsection \<open>Recurring modes\<close>




text \<open>
  C4, as the claim states it, fails. A sell in the quantity mode (\<open>recurringMode = qu\<close>)
  closes a position of 1250 DOGE bought for 100 USDT. When the store fails on the read of
  the position in the bookkeeping, or on the write of the balance, the order is placed and
  the record cleared but no balance is written; when it fails on the delete command, the
  balance is written and the record stays.
\<close>

theorem quantity_mode_outage_counterexample:
  "recurringMode (with_defaults (normalizedSignal
       ((doge_signal ''sell'')\<lparr> recurringMode := Val ''qu'' \<rparr>))) = Val ''qu''
   \<and> h_usdtSpent (doge_position (Num 1250)) = ToString (Num 100)
   \<and> success (fst (processSignal clk0
         (manager0 (ans0 (Num (17 / 200))) (db_open (Num 1250) [False, False, False, False, False, True]))
         ((doge_signal ''sell'')\<lparr> recurringMode := Val ''qu'' \<rparr>)))
   \<and> strings (database (snd (processSignal clk0
         (manager0 (ans0 (Num (17 / 200))) (db_open (Num 1250) [False, False, False, False, False, True]))
         ((doge_signal ''sell'')\<lparr> recurringMode := Val ''qu'' \<rparr>))))
        ''balance:DOGE:momentum:1m'' = None
   \<and> hashes (database (snd (processSignal clk0
         (manager0 (ans0 (Num (17 / 200))) (db_open (Num 1250) [False, False, False, False, False, True]))
         ((doge_signal ''sell'')\<lparr> recurringMode := Val ''qu'' \<rparr>))))
        ''buy:DOGE:momentum:1m'' = None
   \<and> success (fst (processSignal clk0
         (manager0 (ans0 (Num (17 / 200)))
            (db_open (Num 1250) [False, False, False, False, False, False, True]))
         ((doge_signal ''sell'')\<lparr> recurringMode := Val ''qu'' \<rparr>)))
   \<and> strings (database (snd (processSignal clk0
         (manager0 (ans0 (Num (17 / 200)))
            (db_open (Num 1250) [False, False, False, False, False, False, True]))
         ((doge_signal ''sell'')\<lparr> recurringMode := Val ''qu'' \<rparr>))))
        ''balance:DOGE:momentum:1m'' = None
   \<and> success (fst (processSignal clk0
         (manager0 (ans0 (Num (17 / 200)))
            (db_open (Num 1250) [False, False, False, False, False, False, False, True]))
         ((doge_signal ''sell'')\<lparr> recurringMode := Val ''qu'' \<rparr>)))
   \<and> map_option h_status (hashes (database (snd (processSignal clk0
         (manager0 (ans0 (Num (17 / 200)))
            (db_open (Num 1250) [False, False, False, False, False, False, False, True]))
         ((doge_signal ''sell'')\<lparr> recurringMode := Val ''qu'' \<rparr>))))
        ''buy:DOGE:momentum:1m'') = Some ''active''"
  by code_simp

text \<open>
  C4, amended. The quantity mode is in force exactly when the \<open>recurringMode\<close> of the
  signal, in lower case, is \<open>qu\<close>. For a sell executed in that mode the bookkeeping
  reads the position record, writes the trading balance and deletes the record, in that
  order. When the store carries out the read and the write, the balance written under the
  strategy key is the \<open>usdtSpent\<close> of the position record being closed, whatever the
  proceeds; when one of the two fails, no balance is written and the balances stay as they
  were. The record is deleted unless the store fails on the delete command. When the three
  commands are carried out, the balance is that \<open>usdtSpent\<close> and the record is gone.
\<close>

theorem quantity_mode_recycles:
  assumes v: "v = with_defaults (normalizedSignal sig)"
    and a: "action v = Val ''sell''"
    and k: "k = getStrategyKey (render (coin v)) (category v) (subcategory v)"
    and pos: "hashes (database m) (''buy:'' @ k) = Some d"
    and ok: "success (fst (processSignal clk m sig))"
    and db: "db = books_ledger m v"
    and db': "db' = database (snd (processSignal clk m sig))"
  shows "(recurringMode v = Val ''qu'') = (normalize_value (recurringMode sig) = Val ''qu'')
     \<and> (recurringMode v = Val ''qu'' \<longrightarrow>
           strings db' = (if \<not> throws_at db 0 \<and> \<not> throws_at db 1
                          then (strings (database m))(''balance:'' @ k \<mapsto> h_usdtSpent d)
                          else strings (database m))
         \<and> hashes db' = (if throws_at db (if throws_at db 0 then 1 else 2)
                         then hashes (database m)
                         else (hashes (database m))(''buy:'' @ k := None)))
     \<and> (recurringMode v = Val ''qu'' \<and> answered db 3 \<longrightarrow>
           strings db' (''balance:'' @ k) = Some (h_usdtSpent d)
         \<and> hashes db' (''buy:'' @ k) = None)"
proof -
  have i: "(recurringMode v = Val ''qu'') = (normalize_value (recurringMode sig) = Val ''qu'')"
    unfolding v by (rule quantity_mode_iff)
  have q: "recurringMode v = Val ''qu'' \<longrightarrow>
           strings db' = (if \<not> throws_at db 0 \<and> \<not> throws_at db 1
                          then (strings (database m))(''balance:'' @ k \<mapsto> h_usdtSpent d)
                          else strings (database m))
         \<and> hashes db' = (if throws_at db (if throws_at db 0 then 1 else 2)
                         then hashes (database m)
                         else (hashes (database m))(''buy:'' @ k := None))"
  proof
    assume qu: "recurringMode v = Val ''qu''"
    from executed_books [OF v ok] a obtain m4 ps where
      m4: "database m4 = db" "snd (processSignal clk m sig)
             = recordSell m4 v (render (symbol v)) (render (coin v)) ps"
      unfolding db by auto
    have c: "hashes db = hashes (database m)" "strings db = strings (database m)"
      unfolding db using books_ledger_contents [of m v] by simp_all
    have p: "hashes db (''buy:'' @ getStrategyKey (render (coin v)) (category v) (subcategory v)) = Some d"
      using pos unfolding c k .
    have e: "db' = snd (clearBuyPosition
              (case getBuyPosition db (render (coin v)) (category v) (subcategory v) of
                 (Some p, db1) \<Rightarrow> snd (storeTradingBalance db1 (render (coin v)) (category v)
                                        (subcategory v) (p_usdtSpent p))
               | (None, db1) \<Rightarrow> db1)
              (render (coin v)) (category v) (subcategory v))"
      unfolding db' m4(2) db_recordSell_qu [OF qu] m4(1) ..
    from qu_books [OF p e]
    show "strings db' = (if \<not> throws_at db 0 \<and> \<not> throws_at db 1
                          then (strings (database m))(''balance:'' @ k \<mapsto> h_usdtSpent d)
                          else strings (database m))
         \<and> hashes db' = (if throws_at db (if throws_at db 0 then 1 else 2)
                         then hashes (database m)
                         else (hashes (database m))(''buy:'' @ k := None))"
      unfolding c k by simp
  qed
  have r: "recurringMode v = Val ''qu'' \<and> answered db 3 \<longrightarrow>
           strings db' (''balance:'' @ k) = Some (h_usdtSpent d)
         \<and> hashes db' (''buy:'' @ k) = None"
    using q answered_throws [of db 3 0] answered_throws [of db 3 1] answered_throws [of db 3 2]
    by simp
  show ?thesis
    by (intro conjI) (fact i q r)+
qed

theorem quantity_mode_recycles_witness:
  "recurringMode (with_defaults (normalizedSignal ((doge_signal ''sell'')\<lparr> recurringMode := Val ''QU'' \<rparr>)))
     = Val ''qu''
   \<and> success (fst (processSignal clk0 (manager0 (ans0 (Num (17 / 200))) (db_open (Num 1250) []))
                     ((doge_signal ''sell'')\<lparr> recurringMode := Val ''QU'' \<rparr>)))
   \<and> strings (database (snd (processSignal clk0 (manager0 (ans0 (Num (17 / 200))) (db_open (Num 1250) []))
                                ((doge_signal ''sell'')\<lparr> recurringMode := Val ''QU'' \<rparr>))))
        ''balance:DOGE:momentum:1m'' = Some (ToString (Num 100))
   \<and> hashes (database (snd (processSignal clk0 (manager0 (ans0 (Num (17 / 200))) (db_open (Num 1250) []))
                                ((doge_signal ''sell'')\<lparr> recurringMode := Val ''QU'' \<rparr>))))
        ''buy:DOGE:momentum:1m'' = None
   \<and> throws_at (books_ledger
         (manager0 (ans0 (Num (17 / 200))) (db_open (Num 1250) [False, False, False, False, False, True]))
         (with_defaults (normalizedSignal ((doge_signal ''sell'')\<lparr> recurringMode := Val ''QU'' \<rparr>)))) 0
   \<and> strings (database (snd (processSignal clk0
         (manager0 (ans0 (Num (17 / 200))) (db_open (Num 1250) [False, False, False, False, False, True]))
         ((doge_signal ''sell'')\<lparr> recurringMode := Val ''QU'' \<rparr>))))
        ''balance:DOGE:momentum:1m'' = None"
proof -
  let ?sig = "(doge_signal ''sell'')\<lparr> recurringMode := Val ''QU'' \<rparr>"
  let ?v = "with_defaults (normalizedSignal ?sig)"
  let ?m = "manager0 (ans0 (Num (17 / 200))) (db_open (Num 1250) [])"
  let ?m' = "manager0 (ans0 (Num (17 / 200))) (db_open (Num 1250) [False, False, False, False, False, True])"
  have a: "action ?v = Val ''sell''" by code_simp
  have qu: "recurringMode ?v = Val ''qu''" by code_simp
  have k: "''DOGE:momentum:1m'' = getStrategyKey (render (coin ?v)) (category ?v) (subcategory ?v)"
    by code_simp
  have pos: "hashes (database ?m) (''buy:'' @ ''DOGE:momentum:1m'') = Some (doge_position (Num 1250))"
    by (simp add: manager0_def db_open_def)
  have ok: "success (fst (processSignal clk0 ?m ?sig))" by code_simp
  have an: "answered (books_ledger ?m ?v) 3" by code_simp
  note t = quantity_mode_recycles [OF refl a k pos ok refl refl]
  note t3 = t [THEN conjunct2, THEN conjunct2]
  from t3 qu an have s: "strings (database (snd (processSignal clk0 ?m ?sig))) ''balance:DOGE:momentum:1m''
       = Some (ToString (Num 100))"
    by (simp add: doge_position_def)
  from t3 qu an have h: "hashes (database (snd (processSignal clk0 ?m ?sig))) ''buy:DOGE:momentum:1m'' = None"
    by simp
  have pos': "hashes (database ?m') (''buy:'' @ ''DOGE:momentum:1m'') = Some (doge_position (Num 1250))"
    by (simp add: manager0_def db_open_def)
  have ok': "success (fst (processSignal clk0 ?m' ?sig))" by code_simp
  have th: "throws_at (books_ledger ?m' ?v) 0" by code_simp
  have st: "strings (database ?m') = Map.empty" by (simp add: manager0_def db_open_def)
  note t' = quantity_mode_recycles [OF refl a k pos' ok' refl refl]
  from t' [THEN conjunct2, THEN conjunct1] qu th st have s': "strings (database (snd (processSignal clk0 ?m' ?sig)))
        ''balance:DOGE:momentum:1m'' = None"
    by simp
  show ?thesis
    by (intro conjI) (fact qu ok s h th s')+
qed

subsection \<open>A position recorded without a price\<close>

text \<open>
  C9, as the claim states it, fails. A first buy with \<open>initialQuantity = 5\<close> and no price is
  placed while the ticker is down: the record stored has the price 0 but the quantity 5,
  and \<open>canSell\<close> is then true for the key. When the store fails on the write of the
  record, the order is placed and no record is stored. And with an active record of
  quantity 0 stored, a buy whose eligibility read fails is accepted and placed.
\<close>

theorem zero_price_record_counterexample:
  "success (fst (processSignal clk0 (manager0 ans_no_ticker (db_empty []))
                  ((doge_signal ''buy'')\<lparr> initialQuantity := Val (Num 5) \<rparr>)))
   \<and> fst (getTicker (exchange ans_no_ticker) ''DOGE-USDT'') = None
   \<and> map_option h_price
        (hashes (database (snd (processSignal clk0 (manager0 ans_no_ticker (db_empty []))
                                  ((doge_signal ''buy'')\<lparr> initialQuantity := Val (Num 5) \<rparr>))))
           ''buy:DOGE:momentum:1m'') = Some (ToString (Num 0))
   \<and> map_option h_quantity
        (hashes (database (snd (processSignal clk0 (manager0 ans_no_ticker (db_empty []))
                                  ((doge_signal ''buy'')\<lparr> initialQuantity := Val (Num 5) \<rparr>))))
           ''buy:DOGE:momentum:1m'') = Some (ToString (Num 5))
   \<and> fst (canSell (database (snd (processSignal clk0 (manager0 ans_no_ticker (db_empty []))
                                    ((doge_signal ''buy'')\<lparr> initialQuantity := Val (Num 5) \<rparr>))))
            ''DOGE'' (Val ''momentum'') (Val ''1m''))
   \<and> success (fst (processSignal clk0
                     (manager0 ans_no_ticker (db_empty [False, False, False, False, True]))
                     (doge_signal ''buy'')))
   \<and> hashes (database (snd (processSignal clk0
                     (manager0 ans_no_ticker (db_empty [False, False, False, False, True]))
                     (doge_signal ''buy''))))
        ''buy:DOGE:momentum:1m'' = None
   \<and> map_option h_quantity (hashes (db_open (Num 0) [True]) ''buy:DOGE:momentum:1m'')
        = Some (ToString (Num 0))
   \<and> map_option h_status (hashes (db_open (Num 0) [True]) ''buy:DOGE:momentum:1m'')
        = Some ''active''
   \<and> fst (canBuy (db_open (Num 0) [True]) ''DOGE'' (Val ''momentum'') (Val ''1m''))
   \<and> success (fst (processSignal clk0 (manager0 (ans0 (Num 2)) (db_open (Num 0) [True]))
                     (doge_signal ''buy'')))
   \<and> length (orders (okxClient (snd (processSignal clk0
                     (manager0 (ans0 (Num 2)) (db_open (Num 0) [True])) (doge_signal ''buy''))))) = 1"
  by code_simp

text \<open>
  C9, amended. If a buy order is placed, the post-trade ticker fetch returns nothing and
  the signal carried no limit price, then, when the store carries out the write of the
  record, the position record stored has the price 0 and the status \<open>'active'\<close>, and its
  quantity is 0 when the signal carried no \<open>initialQuantity\<close>, and that \<open>initialQuantity\<close>
  otherwise; \<open>canBuy\<close> for the key then returns false when its read is answered, and
  \<open>canSell\<close> returns true exactly when its read is answered and an \<open>initialQuantity\<close> above 0
  was given. When the write fails, no record is stored. For a strategy key that holds an
  active record of quantity 0, \<open>canSell\<close> returns false, and \<open>canBuy\<close> returns false when
  its read is answered and true when the read fails: every signal other than a buy whose
  eligibility read fails is rejected with no order sent.
\<close>

theorem zero_price_record:
  assumes v: "v = with_defaults (normalizedSignal sig)"
    and k: "k = getStrategyKey (render (coin v)) (category v) (subcategory v)"
    and db: "db = books_ledger m v"
    and db': "db' = database (snd (processSignal clk m sig))"
  shows "(action v = Val ''buy'' \<and> success (fst (processSignal clk m sig))
          \<and> fst (getTicker (okxClient m) (render (symbol v))) = None \<and> truthy_num (price v) = None
          \<longrightarrow> (throws_at db 0 \<longrightarrow> hashes db' = hashes (database m))
            \<and> (\<not> throws_at db 0 \<longrightarrow>
                 (\<exists>d. hashes db' (''buy:'' @ k) = Some d
                   \<and> h_price d = ToString (Num 0) \<and> h_status d = ''active''
                   \<and> h_quantity d = ToString (case truthy_num (initialQuantity v) of
                                                 Some q \<Rightarrow> q | None \<Rightarrow> Num 0))
               \<and> fst (canBuy db' (render (coin v)) (category v) (subcategory v)) = throws_at db' 0
               \<and> fst (canSell db' (render (coin v)) (category v) (subcategory v))
                   = (\<not> throws_at db' 0
                      \<and> (case truthy_num (initialQuantity v) of
                            Some q \<Rightarrow> jgreater q (Num 0) | None \<Rightarrow> False))))
     \<and> (hashes (database m) (''buy:'' @ k) = Some d0 \<and> h_status d0 = ''active''
          \<and> h_quantity d0 = ToString (Num 0)
          \<longrightarrow> \<not> fst (canSell (database m) (render (coin v)) (category v) (subcategory v))
            \<and> fst (canBuy (database m) (render (coin v)) (category v) (subcategory v))
                = throws_at (database m) 0
            \<and> (action v \<noteq> Val ''buy'' \<or> \<not> throws_at (database m) 0 \<longrightarrow>
                 \<not> success (fst (processSignal clk m sig))
               \<and> orders (okxClient (snd (processSignal clk m sig))) = orders (okxClient m)))"
proof -
  let ?c = "render (coin v)"
  have one: "action v = Val ''buy'' \<and> success (fst (processSignal clk m sig))
          \<and> fst (getTicker (okxClient m) (render (symbol v))) = None \<and> truthy_num (price v) = None
          \<longrightarrow> (throws_at db 0 \<longrightarrow> hashes db' = hashes (database m))
            \<and> (\<not> throws_at db 0 \<longrightarrow>
                 (\<exists>d. hashes db' (''buy:'' @ k) = Some d
                   \<and> h_price d = ToString (Num 0) \<and> h_status d = ''active''
                   \<and> h_quantity d = ToString (case truthy_num (initialQuantity v) of
                                                 Some q \<Rightarrow> q | None \<Rightarrow> Num 0))
               \<and> fst (canBuy db' (render (coin v)) (category v) (subcategory v)) = throws_at db' 0
               \<and> fst (canSell db' (render (coin v)) (category v) (subcategory v))
                   = (\<not> throws_at db' 0
                      \<and> (case truthy_num (initialQuantity v) of
                            Some q \<Rightarrow> jgreater q (Num 0) | None \<Rightarrow> False)))"
  proof
    assume h: "action v = Val ''buy'' \<and> success (fst (processSignal clk m sig))
          \<and> fst (getTicker (okxClient m) (render (symbol v))) = None \<and> truthy_num (price v) = None"
    from executed_books [OF v, of clk m] h obtain m4 ta ord where
      m4: "database m4 = db" "answer (okxClient m4) = answer (okxClient m)"
        "snd (processSignal clk m sig) = recordBuy clk m4 v (render (symbol v)) ?c ord ta"
      unfolding db by auto
    have c: "hashes db = hashes (database m)"
      unfolding db using books_ledger_contents [of m v] by simp
    from hashes_recordBuy [of clk m4 v "render (symbol v)" ?c ord ta]
    obtain d where
      d: "hashes db' = (if throws_at db 0 then hashes (database m)
                        else (hashes (database m))(''buy:'' @ k \<mapsto> d))"
         "h_status d = ''active''"
         "h_price d = ToString (fallback_price (fst (getTicker (okxClient m) (render (symbol v)))) v)"
         "h_quantity d = ToString
          (case truthy_num (initialQuantity v) of
             Some q \<Rightarrow> q
           | None \<Rightarrow> if jgreater (parseFloat (h_price d)) (Num 0)
                     then jdiv (parseFloat (h_usdtSpent d)) (parseFloat (h_price d)) else Num 0)"
      unfolding db' m4(3) m4(1) m4(2) c k getTicker_eq2 by auto
    from d(3) h have p: "h_price d = ToString (Num 0)"
      by (simp add: fallback_price_def)
    from d(4) p have q: "h_quantity d = ToString (case truthy_num (initialQuantity v) of
                                                 Some q \<Rightarrow> q | None \<Rightarrow> Num 0)"
      by (simp add: jgreater_def split: option.splits)
    have t: "throws_at db 0 \<longrightarrow> hashes db' = hashes (database m)"
      using d(1) by simp
    have s: "\<not> throws_at db 0 \<longrightarrow>
                 (\<exists>d. hashes db' (''buy:'' @ k) = Some d
                   \<and> h_price d = ToString (Num 0) \<and> h_status d = ''active''
                   \<and> h_quantity d = ToString (case truthy_num (initialQuantity v) of
                                                 Some q \<Rightarrow> q | None \<Rightarrow> Num 0))
               \<and> fst (canBuy db' (render (coin v)) (category v) (subcategory v)) = throws_at db' 0
               \<and> fst (canSell db' (render (coin v)) (category v) (subcategory v))
                   = (\<not> throws_at db' 0
                      \<and> (case truthy_num (initialQuantity v) of
                            Some q \<Rightarrow> jgreater q (Num 0) | None \<Rightarrow> False))"
    proof
      assume n: "\<not> throws_at db 0"
      from d(1) n have st: "hashes db' (''buy:'' @ getStrategyKey ?c (category v) (subcategory v)) = Some d"
        unfolding k by simp
      note g = gate_reads [OF st d(2)]
      have js: "jgreater (parseFloat (h_quantity d)) (Num 0)
                  = (case truthy_num (initialQuantity v) of
                            Some q \<Rightarrow> jgreater q (Num 0) | None \<Rightarrow> False)"
        unfolding q by (simp add: jgreater_def split: option.splits)
      from st p q d(2) have e: "\<exists>d. hashes db' (''buy:'' @ k) = Some d
                   \<and> h_price d = ToString (Num 0) \<and> h_status d = ''active''
                   \<and> h_quantity d = ToString (case truthy_num (initialQuantity v) of
                                                 Some q \<Rightarrow> q | None \<Rightarrow> Num 0)"
        unfolding k by blast
      from e g js show "(\<exists>d. hashes db' (''buy:'' @ k) = Some d
                   \<and> h_price d = ToString (Num 0) \<and> h_status d = ''active''
                   \<and> h_quantity d = ToString (case truthy_num (initialQuantity v) of
                                                 Some q \<Rightarrow> q | None \<Rightarrow> Num 0))
               \<and> fst (canBuy db' (render (coin v)) (category v) (subcategory v)) = throws_at db' 0
               \<and> fst (canSell db' (render (coin v)) (category v) (subcategory v))
                   = (\<not> throws_at db' 0
                      \<and> (case truthy_num (initialQuantity v) of
                            Some q \<Rightarrow> jgreater q (Num 0) | None \<Rightarrow> False))"
        by simp
    qed
    from t s show "(throws_at db 0 \<longrightarrow> hashes db' = hashes (database m))
            \<and> (\<not> throws_at db 0 \<longrightarrow>
                 (\<exists>d. hashes db' (''buy:'' @ k) = Some d
                   \<and> h_price d = ToString (Num 0) \<and> h_status d = ''active''
                   \<and> h_quantity d = ToString (case truthy_num (initialQuantity v) of
                                                 Some q \<Rightarrow> q | None \<Rightarrow> Num 0))
               \<and> fst (canBuy db' (render (coin v)) (category v) (subcategory v)) = throws_at db' 0
               \<and> fst (canSell db' (render (coin v)) (category v) (subcategory v))
                   = (\<not> throws_at db' 0
                      \<and> (case truthy_num (initialQuantity v) of
                            Some q \<Rightarrow> jgreater q (Num 0) | None \<Rightarrow> False)))"
      by (rule conjI)
  qed
  have two: "hashes (database m) (''buy:'' @ k) = Some d0 \<and> h_status d0 = ''active''
          \<and> h_quantity d0 = ToString (Num 0)
          \<longrightarrow> \<not> fst (canSell (database m) (render (coin v)) (category v) (subcategory v))
            \<and> fst (canBuy (database m) (render (coin v)) (category v) (subcategory v))
                = throws_at (database m) 0
            \<and> (action v \<noteq> Val ''buy'' \<or> \<not> throws_at (database m) 0 \<longrightarrow>
                 \<not> success (fst (processSignal clk m sig))
               \<and> orders (okxClient (snd (processSignal clk m sig))) = orders (okxClient m))"
  proof
    assume h: "hashes (database m) (''buy:'' @ k) = Some d0 \<and> h_status d0 = ''active''
          \<and> h_quantity d0 = ToString (Num 0)"
    let ?d1 = "snd (canBuy (database m) ?c (category v) (subcategory v))"
    have st: "hashes (database m) (''buy:'' @ getStrategyKey ?c (category v) (subcategory v)) = Some d0"
      using h unfolding k by simp
    have st1: "hashes ?d1 (''buy:'' @ getStrategyKey ?c (category v) (subcategory v)) = Some d0"
      using st canBuy_contents [of "database m" ?c "category v" "subcategory v"] by simp
    have a: "h_status d0 = ''active''" using h by simp
    have z: "\<not> jgreater (parseFloat (h_quantity d0)) (Num 0)"
      using h by (simp add: jgreater_def)
    have cs: "\<not> fst (canSell (database m) ?c (category v) (subcategory v))"
      using gate_reads(2) [OF st a] z by simp
    have cs1: "\<not> fst (canSell ?d1 ?c (category v) (subcategory v))"
      using gate_reads(2) [OF st1 a] z by simp
    have cb: "fst (canBuy (database m) ?c (category v) (subcategory v)) = throws_at (database m) 0"
      by (rule gate_reads(1) [OF st a])
    have rj: "action v \<noteq> Val ''buy'' \<or> \<not> throws_at (database m) 0 \<longrightarrow>
                 \<not> success (fst (processSignal clk m sig))
               \<and> orders (okxClient (snd (processSignal clk m sig))) = orders (okxClient m)"
    proof
      assume "action v \<noteq> Val ''buy'' \<or> \<not> throws_at (database m) 0"
      with cb have b: "action v = Val ''buy'' \<longrightarrow>
               \<not> fst (canBuy (database m) ?c (category v) (subcategory v))"
        by auto
      from cs1 have s: "action v = Val ''sell'' \<longrightarrow>
               \<not> fst (canSell ?d1 ?c (category v) (subcategory v))"
        by simp
      show "\<not> success (fst (processSignal clk m sig))
               \<and> orders (okxClient (snd (processSignal clk m sig))) = orders (okxClient m)"
        by (rule rejected_when [OF v b s])
    qed
    from cs cb rj
    show "\<not> fst (canSell (database m) (render (coin v)) (category v) (subcategory v))
            \<and> fst (canBuy (database m) (render (coin v)) (category v) (subcategory v))
                = throws_at (database m) 0
            \<and> (action v \<noteq> Val ''buy'' \<or> \<not> throws_at (database m) 0 \<longrightarrow>
                 \<not> success (fst (processSignal clk m sig))
               \<and> orders (okxClient (snd (processSignal clk m sig))) = orders (okxClient m))"
      by (intro conjI)
  qed
  show ?thesis
    by (intro conjI) (fact one two)+
qed


theorem zero_price_record_witness:
  "success (fst (processSignal clk0 (manager0 ans_no_ticker (db_empty [])) (doge_signal ''buy'')))
   \<and> fst (getTicker (exchange ans_no_ticker) ''DOGE-USDT'') = None
   \<and> map_option h_quantity
        (hashes (database (snd (processSignal clk0 (manager0 ans_no_ticker (db_empty []))
                                  (doge_signal ''buy''))))
           ''buy:DOGE:momentum:1m'') = Some (ToString (Num 0))
   \<and> map_option h_price
        (hashes (database (snd (processSignal clk0 (manager0 ans_no_ticker (db_empty []))
                                  (doge_signal ''buy''))))
           ''buy:DOGE:momentum:1m'') = Some (ToString (Num 0))
   \<and> \<not> fst (canSell (database (snd (processSignal clk0 (manager0 ans_no_ticker (db_empty []))
                                      (doge_signal ''buy''))))
              ''DOGE'' (Val ''momentum'') (Val ''1m''))
   \<and> \<not> fst (canBuy (database (snd (processSignal clk0 (manager0 ans_no_ticker (db_empty []))
                                     (doge_signal ''buy''))))
              ''DOGE'' (Val ''momentum'') (Val ''1m''))
   \<and> success (fst (processSignal clk0 (manager0 ans_no_ticker (db_empty []))
                     ((doge_signal ''buy'')\<lparr> initialQuantity := Val (Num (- 5)) \<rparr>)))
   \<and> map_option h_quantity
        (hashes (database (snd (processSignal clk0 (manager0 ans_no_ticker (db_empty []))
                                  ((doge_signal ''buy'')\<lparr> initialQuantity := Val (Num (- 5)) \<rparr>))))
           ''buy:DOGE:momentum:1m'') = Some (ToString (Num (- 5)))
   \<and> \<not> fst (canSell (database (snd (processSignal clk0 (manager0 ans_no_ticker (db_empty []))
                                      ((doge_signal ''buy'')\<lparr> initialQuantity := Val (Num (- 5)) \<rparr>))))
              ''DOGE'' (Val ''momentum'') (Val ''1m''))
   \<and> \<not> success (fst (processSignal clk0 (manager0 (ans0 (Num 2)) (db_open (Num 0) []))
                        (doge_signal ''sell'')))
   \<and> \<not> success (fst (processSignal clk0 (manager0 (ans0 (Num 2)) (db_open (Num 0) []))
                        (doge_signal ''buy'')))"
proof -
  let ?m = "manager0 ans_no_ticker (db_empty [])"
  let ?sig = "doge_signal ''buy''"
  let ?v = "with_defaults (normalizedSignal ?sig)"
  let ?sig5 = "(doge_signal ''buy'')\<lparr> initialQuantity := Val (Num (- 5)) \<rparr>"
  let ?v5 = "with_defaults (normalizedSignal ?sig5)"
  let ?m2 = "manager0 (ans0 (Num 2)) (db_open (Num 0) [])"
  let ?sig2 = "doge_signal ''sell''"
  let ?v2 = "with_defaults (normalizedSignal ?sig2)"
  let ?db' = "database (snd (processSignal clk0 ?m ?sig))"
  let ?db5 = "database (snd (processSignal clk0 ?m ?sig5))"
  have k: "''DOGE:momentum:1m'' = getStrategyKey (render (coin ?v)) (category ?v) (subcategory ?v)"
    by code_simp
  have cn: "render (coin ?v) = ''DOGE''" "category ?v = Val ''momentum''" "subcategory ?v = Val ''1m''"
    by code_simp+
  have a: "action ?v = Val ''buy''" by code_simp
  have ok: "success (fst (processSignal clk0 ?m ?sig))" by code_simp
  have tk: "fst (getTicker (okxClient ?m) (render (symbol ?v))) = None" by code_simp
  have tk': "fst (getTicker (exchange ans_no_ticker) ''DOGE-USDT'') = None" by code_simp
  have np: "truthy_num (price ?v) = None" by code_simp
  have iq: "truthy_num (initialQuantity ?v) = None" by code_simp
  have nt: "\<not> throws_at (books_ledger ?m ?v) 0" by code_simp
  have nt': "\<not> throws_at ?db' 0" by code_simp
  note t = zero_price_record [OF refl k refl refl, where clk = clk0 and m = ?m,
      THEN conjunct1]
  from t a ok tk np iq nt
  obtain d where d: "hashes ?db' ''buy:DOGE:momentum:1m'' = Some d"
      "h_price d = ToString (Num 0)" "h_quantity d = ToString (Num 0)"
    by auto
  have q: "map_option h_quantity (hashes ?db' ''buy:DOGE:momentum:1m'') = Some (ToString (Num 0))"
    using d by simp
  have p: "map_option h_price (hashes ?db' ''buy:DOGE:momentum:1m'') = Some (ToString (Num 0))"
    using d by simp
  from t a ok tk np iq nt nt' cn
  have cs: "\<not> fst (canSell ?db' ''DOGE'' (Val ''momentum'') (Val ''1m''))" by simp
  from t a ok tk np iq nt nt' cn
  have cb: "\<not> fst (canBuy ?db' ''DOGE'' (Val ''momentum'') (Val ''1m''))" by simp
  have k5: "''DOGE:momentum:1m'' = getStrategyKey (render (coin ?v5)) (category ?v5) (subcategory ?v5)"
    by code_simp
  have cn5: "render (coin ?v5) = ''DOGE''" "category ?v5 = Val ''momentum''"
      "subcategory ?v5 = Val ''1m''"
    by code_simp+
  have a5: "action ?v5 = Val ''buy''" by code_simp
  have ok5: "success (fst (processSignal clk0 ?m ?sig5))" by code_simp
  have tk5: "fst (getTicker (okxClient ?m) (render (symbol ?v5))) = None" by code_simp
  have np5: "truthy_num (price ?v5) = None" by code_simp
  have iq5: "truthy_num (initialQuantity ?v5) = Some (Num (- 5))" by code_simp
  have nt5: "\<not> throws_at (books_ledger ?m ?v5) 0" by code_simp
  note t5 = zero_price_record [OF refl k5 refl refl, where clk = clk0 and m = ?m,
      THEN conjunct1]
  from t5 a5 ok5 tk5 np5 iq5 nt5
  obtain d5 where d5: "hashes ?db5 ''buy:DOGE:momentum:1m'' = Some d5"
      "h_quantity d5 = ToString (Num (- 5))"
    by auto
  have q5: "map_option h_quantity (hashes ?db5 ''buy:DOGE:momentum:1m'') = Some (ToString (Num (- 5)))"
    using d5 by simp
  from t5 a5 ok5 tk5 np5 iq5 nt5 cn5
  have cs5: "\<not> fst (canSell ?db5 ''DOGE'' (Val ''momentum'') (Val ''1m''))"
    by (simp add: jgreater_def)
  have k2: "''DOGE:momentum:1m'' = getStrategyKey (render (coin ?v2)) (category ?v2) (subcategory ?v2)"
    by code_simp
  have pos: "hashes (database ?m2) (''buy:'' @ ''DOGE:momentum:1m'') = Some (doge_position (Num 0))"
    by (simp add: manager0_def db_open_def)
  have st: "h_status (doge_position (Num 0)) = ''active''"
      "h_quantity (doge_position (Num 0)) = ToString (Num 0)"
    by (simp_all add: doge_position_def)
  have a2: "action ?v2 \<noteq> Val ''buy''" by code_simp
  from zero_price_record [OF refl k2 refl refl, where ?d0.0 = "doge_position (Num 0)" and clk = clk0
      and m = ?m2, THEN conjunct2] pos st a2
  have r: "\<not> success (fst (processSignal clk0 ?m2 ?sig2))" by simp
  have nt2: "\<not> throws_at (database ?m2) 0" by code_simp
  from zero_price_record [OF refl k refl refl, where ?d0.0 = "doge_position (Num 0)" and clk = clk0
      and m = ?m2, THEN conjunct2] pos st nt2
  have rb: "\<not> success (fst (processSignal clk0 ?m2 ?sig))" by simp
  show ?thesis
    by (intro conjI) (fact ok tk' q p cs cb ok5 q5 cs5 r rb)+
qed

end
